theory Spec2Isabelle
  imports Main
begin

section \<open>The JavaScript values the server handles\<close>

text \<open>
  The server of \<^verbatim>\<open>src/index.js\<close> moves JSON between a tool caller, a token file and
  two remote services. Its behaviour depends on the JavaScript semantics of a few
  operations on those values: truthiness (\<^verbatim>\<open>!this.accessToken\<close>), conversion to a string
  (template literals, \<^verbatim>\<open>value.toString()\<close>, \<^verbatim>\<open>join\<close>), property access and the
  serialisation of a query string. This section embeds exactly those operations.

  A number is kept in the form in which \<^verbatim>\<open>Number.prototype.toString\<close> reads it: the
  digits \<open>s\<close> of its shortest decimal representation and the decimal exponent \<open>n\<close>, so that
  the number is \<open>s \<times> 10^(n - k)\<close> where \<open>k\<close> is the number of digits of \<open>s\<close>. The double
  \<^verbatim>\<open>0.8\<close> is \<open>NumDecimal False 8 0\<close>, \<^verbatim>\<open>20\<close> is \<open>NumDecimal False 2 2\<close>, \<^verbatim>\<open>-1.5\<close> is
  \<open>NumDecimal True 15 1\<close>. In \<open>NumDecimal neg s n\<close> the digits \<open>s\<close> are positive and do not end
  in 0; both zeros are \<open>NumZero\<close>.

  An object is the list of its own enumerable properties in the order in which
  \<^verbatim>\<open>Object.entries\<close> enumerates them. Strings are sequences of UTF-8 bytes.
\<close>

datatype jsnum = NumNaN | NumInfinity bool | NumZero | NumDecimal bool nat int

datatype jsval =
    JUndefined
  | JNull
  | JBool bool
  | JNum jsnum
  | JStr string
  | JArr "jsval list"
  | JObj "(string \<times> jsval) list"

text \<open>What the code throws, and what the runtime throws on its behalf. \<open>AxiosError\<close>
  carries \<^verbatim>\<open>error.response?.status\<close> (absent when no response arrived) and the message.\<close>

datatype exn =
    Error string
  | TypeError string
  | RangeError string
  | AxiosError "nat option" string

fun message :: "exn \<Rightarrow> string" where
  "message (Error m) = m"
| "message (TypeError m) = m"
| "message (RangeError m) = m"
| "message (AxiosError st m) = m"

fun response_status :: "exn \<Rightarrow> nat option" where
  "response_status (AxiosError st m) = st"
| "response_status e = None"

fun truthy :: "jsval \<Rightarrow> bool" where
  "truthy JUndefined = False"
| "truthy JNull = False"
| "truthy (JBool b) = b"
| "truthy (JNum n) = (n \<noteq> NumNaN \<and> n \<noteq> NumZero)"
| "truthy (JStr s) = (s \<noteq> [])"
| "truthy (JArr xs) = True"
| "truthy (JObj kvs) = True"

subsection \<open>Numbers to strings\<close>

definition digit_char :: "nat \<Rightarrow> char" where
  "digit_char d = ''0123456789'' ! (d mod 10)"

function digits :: "nat \<Rightarrow> string" where
  "digits n = (if n < 10 then [digit_char n] else digits (n div 10) @ [digit_char (n mod 10)])"
  by pat_completeness auto
termination
  by (relation "measure id") auto

declare digits.simps [simp del]

text \<open>\<^verbatim>\<open>Number::toString\<close> of ECMAScript for radix 10: plain notation when the exponent
  \<open>n\<close> lies between -5 and 21, scientific notation otherwise.\<close>

definition decimal_to_string :: "nat \<Rightarrow> int \<Rightarrow> string" where
  "decimal_to_string s n =
     (let ds = digits s; k = int (length ds) in
      if -5 \<le> n \<and> n \<le> 21 then
        (if k \<le> n then ds @ replicate (nat (n - k)) CHR ''0''
         else if 0 < n then take (nat n) ds @ ''.'' @ drop (nat n) ds
         else ''0.'' @ replicate (nat (- n)) CHR ''0'' @ ds)
      else
        (let e = (if n < 0 then ''-'' else ''+'') @ digits (nat (abs (n - 1))) in
         if k = 1 then ds @ ''e'' @ e
         else take 1 ds @ ''.'' @ drop 1 ds @ ''e'' @ e))"

fun number_to_string :: "jsnum \<Rightarrow> string" where
  "number_to_string NumNaN = ''NaN''"
| "number_to_string NumZero = ''0''"
| "number_to_string (NumInfinity neg) = (if neg then ''-Infinity'' else ''Infinity'')"
| "number_to_string (NumDecimal neg s n) =
     (if neg then ''-'' @ decimal_to_string s n else decimal_to_string s n)"

subsection \<open>Values to strings\<close>

fun join_with :: "string \<Rightarrow> string list \<Rightarrow> string" where
  "join_with sep [] = []"
| "join_with sep [s] = s"
| "join_with sep (s # t # ss) = s @ sep @ join_with sep (t # ss)"

text \<open>
  \<open>ToString\<close> is the abstract operation behind template literals and \<^verbatim>\<open>Array.prototype.join\<close>.
  A value built from JSON has no callable property of its own, so an object that carries an
  own property named \<^verbatim>\<open>toString\<close> shadows \<^verbatim>\<open>Object.prototype.toString\<close> with something that
  cannot be called, and the conversion throws a TypeError; every other plain object
  converts to \<^verbatim>\<open>[object Object]\<close>. \<^verbatim>\<open>join\<close> turns \<^verbatim>\<open>undefined\<close> and \<^verbatim>\<open>null\<close> elements into
  the empty string. The message texts of runtime errors are those of Node (V8).
\<close>

fun ToString :: "jsval \<Rightarrow> exn + string"
  and element_strings :: "jsval list \<Rightarrow> exn + string list" where
  "ToString JUndefined = Inr ''undefined''"
| "ToString JNull = Inr ''null''"
| "ToString (JBool b) = Inr (if b then ''true'' else ''false'')"
| "ToString (JNum n) = Inr (number_to_string n)"
| "ToString (JStr s) = Inr s"
| "ToString (JArr xs) =
     (case element_strings xs of Inl e \<Rightarrow> Inl e | Inr ss \<Rightarrow> Inr (join_with '','' ss))"
| "ToString (JObj kvs) =
     (if map_of kvs ''toString'' \<noteq> None
      then Inl (TypeError ''Cannot convert object to primitive value'')
      else Inr ''[object Object]'')"
| "element_strings [] = Inr []"
| "element_strings (x # xs) =
     (case (if x = JUndefined \<or> x = JNull then Inr [] else ToString x) of
        Inl e \<Rightarrow> Inl e
      | Inr s \<Rightarrow> (case element_strings xs of Inl e \<Rightarrow> Inl e | Inr ss \<Rightarrow> Inr (s # ss)))"

text \<open>The TypeError of reading the property \<open>k\<close> of \<^verbatim>\<open>undefined\<close> or \<^verbatim>\<open>null\<close>, with the text
  Node gives it: \<^verbatim>\<open>Cannot read properties of undefined (reading 'k')\<close>.\<close>

definition cannot_read :: "string \<Rightarrow> string \<Rightarrow> exn" where
  "cannot_read what k =
     TypeError (''Cannot read properties of '' @ what @ '' (reading '' @ [CHR 0x27] @ k @
                [CHR 0x27] @ '')'')"

text \<open>\<^verbatim>\<open>x.join(',')\<close>, where \<open>callee\<close> is the text of the expression \<^verbatim>\<open>x\<close>: defined on arrays
  only; on \<^verbatim>\<open>undefined\<close> and \<^verbatim>\<open>null\<close> the property cannot be read, on anything else it is
  missing or not callable.\<close>

fun js_join :: "string \<Rightarrow> jsval \<Rightarrow> exn + string" where
  "js_join callee (JArr xs) = ToString (JArr xs)"
| "js_join callee JUndefined = Inl (cannot_read ''undefined'' ''join'')"
| "js_join callee JNull = Inl (cannot_read ''null'' ''join'')"
| "js_join callee v = Inl (TypeError (callee @ ''.join is not a function''))"

text \<open>The method call \<^verbatim>\<open>value.toString()\<close>.\<close>

fun toString_method :: "jsval \<Rightarrow> exn + string" where
  "toString_method JUndefined = Inl (cannot_read ''undefined'' ''toString'')"
| "toString_method JNull = Inl (cannot_read ''null'' ''toString'')"
| "toString_method (JObj kvs) =
     (if map_of kvs ''toString'' \<noteq> None
      then Inl (TypeError ''value.toString is not a function'')
      else Inr ''[object Object]'')"
| "toString_method v = ToString v"

text \<open>Reading a property that no prototype defines (\<^verbatim>\<open>id\<close>, \<^verbatim>\<open>access_token\<close>, ...).\<close>

fun get_prop :: "jsval \<Rightarrow> string \<Rightarrow> exn + jsval" where
  "get_prop JUndefined k = Inl (cannot_read ''undefined'' k)"
| "get_prop JNull k = Inl (cannot_read ''null'' k)"
| "get_prop (JObj kvs) k = Inr (case map_of kvs k of None \<Rightarrow> JUndefined | Some v \<Rightarrow> v)"
| "get_prop v k = Inr JUndefined"

subsection \<open>Percent-encoding\<close>

definition alphanumeric :: "char \<Rightarrow> bool" where
  "alphanumeric c \<longleftrightarrow>
     c \<in> set ''ABCDEFGHIJKLMNOPQRSTUVWXYZabcdefghijklmnopqrstuvwxyz0123456789''"

definition hex_char :: "nat \<Rightarrow> char" where
  "hex_char d = ''0123456789ABCDEF'' ! (d mod 16)"

definition percent_byte :: "char \<Rightarrow> string" where
  "percent_byte c = [CHR ''%'', hex_char (of_char c div 16), hex_char (of_char c mod 16)]"

text \<open>The byte serialiser of \<^verbatim>\<open>application/x-www-form-urlencoded\<close>, which
  \<^verbatim>\<open>URLSearchParams.prototype.toString\<close> applies to every name and value.\<close>

definition form_byte :: "char \<Rightarrow> string" where
  "form_byte c =
     (if c = CHR '' '' then ''+''
      else if alphanumeric c \<or> c \<in> set ''*-._'' then [c]
      else percent_byte c)"

definition form_encode :: "string \<Rightarrow> string" where
  "form_encode s = concat (map form_byte s)"

text \<open>\<^verbatim>\<open>encodeURIComponent\<close> on a well-formed string.\<close>

definition uri_component_byte :: "char \<Rightarrow> string" where
  "uri_component_byte c =
     (if alphanumeric c \<or> c \<in> set ''-_.!~*()'' \<or> c = CHR 0x27 then [c]
      else percent_byte c)"

definition encodeURIComponent :: "string \<Rightarrow> string" where
  "encodeURIComponent s = concat (map uri_component_byte s)"

text \<open>A \<^verbatim>\<open>URLSearchParams\<close> object is its list of name-value pairs.\<close>

type_synonym URLSearchParams = "(string \<times> string) list"

definition serialize :: "URLSearchParams \<Rightarrow> string" where
  "serialize ps = join_with ''&'' (map (\<lambda>(k, v). form_encode k @ ''='' @ form_encode v) ps)"

section \<open>The environment\<close>

text \<open>
  A date object holds a time value in milliseconds since the epoch, or is an
  \<^verbatim>\<open>Invalid Date\<close>. \<open>TimeClip\<close> is the range check every \<^verbatim>\<open>new Date(number)\<close> performs.
\<close>

datatype jsdate = InvalidDate | Instant int

definition TimeClip :: "int \<Rightarrow> jsdate" where
  "TimeClip t = (if abs t \<le> 8640000000000000 then Instant t else InvalidDate)"

text \<open>
  What axios is told by the network: a reply with a status and a body, or no reply at
  all (with the message axios then reports). With its default \<^verbatim>\<open>validateStatus\<close>, axios
  resolves with the reply when the status is 2xx and rejects otherwise.
\<close>

datatype 'a http_reply = Reply nat 'a | NoReply string

definition axios :: "'a http_reply \<Rightarrow> exn + 'a" where
  "axios r =
     (case r of
        Reply st d \<Rightarrow>
          if 200 \<le> st \<and> st < 300 then Inr d
          else Inl (AxiosError (Some st) (''Request failed with status code '' @ digits st))
      | NoReply msg \<Rightarrow> Inl (AxiosError None msg))"

text \<open>
  The body of a 2xx reply of the token endpoint, with the three fields the code reads.
  A field the reply omits is \<open>JUndefined\<close>. The lifetime is what \<^verbatim>\<open>expires_in * 1000\<close> makes of
  the field: \<open>Seconds n\<close> when the field converts to the whole number \<open>n\<close> (the number the
  service reports, a numeric string; also \<^verbatim>\<open>null\<close>, \<^verbatim>\<open>false\<close> and the empty string, which
  convert to 0, and \<^verbatim>\<open>true\<close>, which converts to 1), and \<open>NoLifetime\<close> when it converts to NaN
  (a missing field, a string that is not numeric, an object). Fractional and infinite
  lifetimes are outside the model.
\<close>

datatype lifetime = Seconds int | NoLifetime

record token_body =
  access_token :: jsval
  refresh_token :: jsval
  expires_in :: lifetime

text \<open>A request to \<^verbatim>\<open>https://api.spotify.com/v1\<close>: \<open>url\<close> is the endpoint appended to the
  base, \<open>http_method\<close> and \<open>body\<close> come from the caller's options (\<^verbatim>\<open>GET\<close> and no body
  by default), \<open>authorization\<close> is the header the gateway sets.\<close>

record api_request =
  url :: string
  http_method :: string
  authorization :: string
  body :: jsval

text \<open>What the browser sends to \<^verbatim>\<open>/callback\<close>: the two query parameters the handler reads.\<close>

record callback =
  code :: "string option"
  error :: "string option"

text \<open>
  The world outside the process. The \<open>k\<close>-th call to a remote service is answered by
  the service's oracle applied to \<open>k\<close> and the request; the answer comes with the
  milliseconds that passed while the call was awaited. Library functions of the runtime
  that the model leaves uninterpreted (\<^verbatim>\<open>JSON.parse\<close>, \<^verbatim>\<open>JSON.stringify(v, null, 2)\<close>,
  \<^verbatim>\<open>Date.parse\<close>, \<^verbatim>\<open>toISOString\<close>) are fields too; \<open>JSON_parse\<close> answers \<open>None\<close> where
  \<^verbatim>\<open>JSON.parse\<close> throws, and \<open>JSON_stringify\<close> is applied only to bodies delivered by axios and
  to the token record, for which \<^verbatim>\<open>JSON.stringify\<close> returns a string. \<open>browser k\<close> lists the
  callback requests that are sent to port 8888 during the \<open>k\<close>-th authorization flow, before
  the timers fire. \<open>port_taken k\<close> says whether another process holds port 8888 when the
  \<open>k\<close>-th flow starts.

  The version of the HTTP library is not recorded in the sources, and the versions differ
  in what \<^verbatim>\<open>app.listen(8888, callback)\<close> does when the port cannot be bound, so this is a
  parameter: with \<open>Unhandled\<close> the failure is emitted as an \<^verbatim>\<open>error\<close> event of the server (Node's
  \<^verbatim>\<open>http.Server\<close>, express 4), for which the code registers no listener; with \<open>ToCallback\<close>
  it is handed to the callback as its argument (express 5), which the code's callback
  does not look at.
\<close>

datatype listen_policy = Unhandled | ToCallback

record world =
  client_id :: string
  client_secret :: string
  token_endpoint :: "nat \<Rightarrow> (string \<times> string) list \<Rightarrow> nat \<times> token_body http_reply"
  api :: "nat \<Rightarrow> api_request \<Rightarrow> nat \<times> jsval http_reply"
  disk_write :: "nat \<Rightarrow> exn option"
  browser :: "nat \<Rightarrow> callback list"
  port_taken :: "nat \<Rightarrow> bool"
  listen_error :: listen_policy
  JSON_parse :: "string \<Rightarrow> jsval option"
  JSON_stringify :: "jsval \<Rightarrow> string"
  Date_parse :: "string \<Rightarrow> jsdate"
  toISOString :: "int \<Rightarrow> string"

section \<open>The server's state\<close>

datatype file_state = Missing | Unreadable exn | Content string

text \<open>A \<open>ToolResult\<close> is the list under the key \<^verbatim>\<open>content\<close>.\<close>

record content_item =
  item_type :: string
  item_text :: string

type_synonym tool_result = "content_item list"

datatype settled = Resolved tool_result | Rejected exn

text \<open>
  The three instance fields of \<^verbatim>\<open>SpotifyMCPServer\<close> (\<open>tokenExpiry = None\<close> is \<^verbatim>\<open>null\<close>),
  the token file, the clock, and what the process has done so far: the requests it sent
  with the replies it got, the number of times \<^verbatim>\<open>refreshAccessToken\<close> was entered, the
  number of attempts to write the token file, and the state of the authorization flow.
\<close>

record server =
  accessToken :: jsval
  refreshToken :: jsval
  tokenExpiry :: "jsdate option"
  token_file :: file_state
  now :: int
  token_log :: "((string \<times> string) list \<times> token_body http_reply) list"
  api_log :: "(api_request \<times> jsval http_reply) list"
  refresh_calls :: nat
  disk_writes :: nat
  listening :: bool
  promise :: "settled option"
  pages :: "string list"
  opened_urls :: "string list"
  flows :: nat

section \<open>Credential store\<close>

text \<open>\<^verbatim>\<open>new Date(v)\<close> for one argument: a string is parsed, an object is first converted to
  a primitive (which for values built from JSON is its string), anything else is
  converted to a number and clipped.\<close>

definition decimal_trunc :: "nat \<Rightarrow> int \<Rightarrow> int" where
  "decimal_trunc s n =
     (let k = int (length (digits s)) in
      if k \<le> n then int s * 10 ^ nat (n - k) else int s div 10 ^ nat (k - n))"

fun new_Date :: "world \<Rightarrow> jsval \<Rightarrow> exn + jsdate" where
  "new_Date w JUndefined = Inr InvalidDate"
| "new_Date w JNull = Inr (TimeClip 0)"
| "new_Date w (JBool b) = Inr (TimeClip (if b then 1 else 0))"
| "new_Date w (JNum NumNaN) = Inr InvalidDate"
| "new_Date w (JNum (NumInfinity neg)) = Inr InvalidDate"
| "new_Date w (JNum NumZero) = Inr (TimeClip 0)"
| "new_Date w (JNum (NumDecimal neg s n)) =
     Inr (TimeClip (if neg then - decimal_trunc s n else decimal_trunc s n))"
| "new_Date w (JStr s) = Inr (Date_parse w s)"
| "new_Date w v = (case ToString v of Inl e \<Rightarrow> Inl e | Inr s \<Rightarrow> Inr (Date_parse w s))"

text \<open>\<^verbatim>\<open>loadTokens\<close>: every failure inside the \<^verbatim>\<open>try\<close> is logged and swallowed, leaving
  the fields assigned before it.\<close>

definition loadTokens :: "world \<Rightarrow> server \<Rightarrow> server" where
  "loadTokens w s =
     (case token_file s of
        Missing \<Rightarrow> s
      | Unreadable e \<Rightarrow> s
      | Content txt \<Rightarrow>
          (case JSON_parse w txt of
             None \<Rightarrow> s
           | Some tokens \<Rightarrow>
               (case get_prop tokens ''access_token'' of
                  Inl e \<Rightarrow> s
                | Inr a \<Rightarrow>
                    let s1 = s\<lparr>accessToken := a\<rparr> in
                    (case get_prop tokens ''refresh_token'' of
                       Inl e \<Rightarrow> s1
                     | Inr r \<Rightarrow>
                         let s2 = s1\<lparr>refreshToken := r\<rparr> in
                         (case get_prop tokens ''expires_at'' of
                            Inl e \<Rightarrow> s2
                          | Inr x \<Rightarrow>
                              (case new_Date w x of
                                 Inl e \<Rightarrow> s2
                               | Inr d \<Rightarrow> s2\<lparr>tokenExpiry := Some d\<rparr>))))))"

text \<open>\<^verbatim>\<open>saveTokens\<close>: \<^verbatim>\<open>toISOString\<close> throws a RangeError on an invalid date, and
  \<^verbatim>\<open>writeFileSync\<close> may throw.\<close>

definition saveTokens :: "world \<Rightarrow> server \<Rightarrow> (exn + unit) \<times> server" where
  "saveTokens w s =
     (case tokenExpiry s of
        None \<Rightarrow> (Inl (cannot_read ''null'' ''toISOString''), s)
      | Some InvalidDate \<Rightarrow> (Inl (RangeError ''Invalid time value''), s)
      | Some (Instant t) \<Rightarrow>
          let tokens = JObj [(''access_token'', accessToken s),
                             (''refresh_token'', refreshToken s),
                             (''expires_at'', JStr (toISOString w t))];
              s' = s\<lparr>disk_writes := Suc (disk_writes s)\<rparr>
          in (case disk_write w (disk_writes s) of
                Some e \<Rightarrow> (Inl e, s')
              | None \<Rightarrow> (Inr (), s'\<lparr>token_file := Content (JSON_stringify w tokens)\<rparr>)))"

text \<open>The constructor: the three fields start as \<^verbatim>\<open>null\<close>, then \<^verbatim>\<open>loadTokens\<close> runs.\<close>

definition new_server :: "file_state \<Rightarrow> int \<Rightarrow> server" where
  "new_server f t =
     \<lparr>accessToken = JNull, refreshToken = JNull, tokenExpiry = None, token_file = f,
      now = t, token_log = [], api_log = [], refresh_calls = 0, disk_writes = 0,
      listening = False, promise = None, pages = [], opened_urls = [], flows = 0\<rparr>"

definition constructor :: "world \<Rightarrow> file_state \<Rightarrow> int \<Rightarrow> server" where
  "constructor w f t = loadTokens w (new_server f t)"

section \<open>Token manager\<close>

text \<open>A form-encoded POST to \<^verbatim>\<open>https://accounts.spotify.com/api/token\<close>.\<close>

definition post_token ::
  "world \<Rightarrow> (string \<times> string) list \<Rightarrow> server \<Rightarrow> (exn + token_body) \<times> server" where
  "post_token w form s =
     (case token_endpoint w (length (token_log s)) form of
        (ms, reply) \<Rightarrow>
          (axios reply, s\<lparr>now := now s + int ms, token_log := token_log s @ [(form, reply)]\<rparr>))"

text \<open>\<^verbatim>\<open>new Date(Date.now() + response.data.expires_in * 1000)\<close>.\<close>

definition expiry_after :: "int \<Rightarrow> lifetime \<Rightarrow> jsdate" where
  "expiry_after t l = (case l of Seconds n \<Rightarrow> TimeClip (t + n * 1000) | NoLifetime \<Rightarrow> InvalidDate)"

text \<open>The body of the \<^verbatim>\<open>try\<close> block of \<^verbatim>\<open>refreshAccessToken\<close>.\<close>

definition refresh_try :: "world \<Rightarrow> server \<Rightarrow> (exn + unit) \<times> server" where
  "refresh_try w s =
     (case ToString (refreshToken s) of
        Inl e \<Rightarrow> (Inl e, s)
      | Inr rt \<Rightarrow>
          (case post_token w [(''grant_type'', ''refresh_token''), (''refresh_token'', rt),
                              (''client_id'', client_id w), (''client_secret'', client_secret w)] s of
             (Inl e, s1) \<Rightarrow> (Inl e, s1)
           | (Inr response_data, s1) \<Rightarrow>
               let s2 = s1\<lparr>accessToken := access_token response_data\<rparr>;
                   s3 = s2\<lparr>tokenExpiry := Some (expiry_after (now s2) (expires_in response_data))\<rparr>;
                   s4 = (if truthy (refresh_token response_data)
                         then s3\<lparr>refreshToken := refresh_token response_data\<rparr> else s3)
               in saveTokens w s4))"

definition refreshAccessToken :: "world \<Rightarrow> server \<Rightarrow> (exn + unit) \<times> server" where
  "refreshAccessToken w s0 =
     (let s = s0\<lparr>refresh_calls := Suc (refresh_calls s0)\<rparr> in
      if \<not> truthy (refreshToken s)
      then (Inl (Error ''No refresh token available. Please re-authenticate.''), s)
      else (case refresh_try w s of
              (Inl e, s') \<Rightarrow> (Inl (Error (''Failed to refresh token: '' @ message e)), s')
            | (Inr u, s') \<Rightarrow> (Inr u, s')))"

text \<open>\<^verbatim>\<open>this.tokenExpiry && new Date() >= this.tokenExpiry\<close>: \<^verbatim>\<open>null\<close> is falsy, and a
  comparison with an invalid date is a comparison with NaN, which is false.\<close>

definition expiry_due :: "server \<Rightarrow> bool" where
  "expiry_due s =
     (case tokenExpiry s of
        None \<Rightarrow> False
      | Some InvalidDate \<Rightarrow> False
      | Some (Instant t) \<Rightarrow> t \<le> now s)"

definition ensureValidToken :: "world \<Rightarrow> server \<Rightarrow> (exn + unit) \<times> server" where
  "ensureValidToken w s =
     (if \<not> truthy (accessToken s)
      then (Inl (Error ''No access token. Please authenticate first using the spotify_authenticate tool.''), s)
      else if expiry_due s then refreshAccessToken w s
      else (Inr (), s))"

section \<open>API gateway\<close>

text \<open>The options a handler passes: nothing, or a method and a body. No handler passes
  headers of its own.\<close>

record request_options =
  opt_method :: "string option"
  opt_data :: "jsval option"

definition no_options :: request_options where
  "no_options = \<lparr>opt_method = None, opt_data = None\<rparr>"

definition post_options :: "jsval \<Rightarrow> request_options" where
  "post_options d = \<lparr>opt_method = Some ''POST'', opt_data = Some d\<rparr>"

definition build_request :: "string \<Rightarrow> request_options \<Rightarrow> string \<Rightarrow> api_request" where
  "build_request endpoint options token =
     \<lparr>url = ''https://api.spotify.com/v1'' @ endpoint,
      http_method = (case opt_method options of None \<Rightarrow> ''GET'' | Some m \<Rightarrow> m),
      authorization = ''Bearer '' @ token,
      body = (case opt_data options of None \<Rightarrow> JUndefined | Some d \<Rightarrow> d)\<rparr>"

definition send_api :: "world \<Rightarrow> api_request \<Rightarrow> server \<Rightarrow> (exn + jsval) \<times> server" where
  "send_api w req s =
     (case api w (length (api_log s)) req of
        (ms, reply) \<Rightarrow>
          (axios reply, s\<lparr>now := now s + int ms, api_log := api_log s @ [(req, reply)]\<rparr>))"

definition makeSpotifyRequest ::
  "world \<Rightarrow> string \<Rightarrow> request_options \<Rightarrow> server \<Rightarrow> (exn + jsval) \<times> server" where
  "makeSpotifyRequest w endpoint options s =
     (case ensureValidToken w s of
        (Inl e, s1) \<Rightarrow> (Inl e, s1)
      | (Inr u, s1) \<Rightarrow>
          (case ToString (accessToken s1) of
             Inl e \<Rightarrow> (Inl e, s1)
           | Inr token \<Rightarrow>
               (case send_api w (build_request endpoint options token) s1 of
                  (Inr response_data, s2) \<Rightarrow> (Inr response_data, s2)
                | (Inl err, s2) \<Rightarrow>
                    if response_status err = Some 401 then
                      (case refreshAccessToken w s2 of
                         (Inl e, s3) \<Rightarrow> (Inl e, s3)
                       | (Inr u, s3) \<Rightarrow>
                           (case ToString (accessToken s3) of
                              Inl e \<Rightarrow> (Inl e, s3)
                            | Inr token' \<Rightarrow>
                                send_api w (build_request endpoint options token') s3))
                    else (Inl err, s2))))"

section \<open>Tool handlers\<close>

text \<open>Every handler wraps what it has to say in the same envelope: a content list with one
  item of type \<^verbatim>\<open>text\<close>.\<close>

definition envelope :: "string \<Rightarrow> tool_result" where
  "envelope t = [\<lparr>item_type = ''text'', item_text = t\<rparr>]"

text \<open>The common tail of the eleven data handlers: await the gateway, then return the
  envelope of \<^verbatim>\<open>JSON.stringify(data, null, 2)\<close>.\<close>

definition json_result ::
  "world \<Rightarrow> (exn + jsval) \<times> server \<Rightarrow> (exn + tool_result) \<times> server" where
  "json_result w r =
     (case r of
        (Inl e, s) \<Rightarrow> (Inl e, s)
      | (Inr d, s) \<Rightarrow> (Inr (envelope (JSON_stringify w d)), s))"

text \<open>A template literal is a list of literal chunks and substitutions, converted from
  left to right.\<close>

datatype part = Lit string | Sub jsval

fun template :: "part list \<Rightarrow> exn + string" where
  "template [] = Inr []"
| "template (Lit t # ps) = (case template ps of Inl e \<Rightarrow> Inl e | Inr r \<Rightarrow> Inr (t @ r))"
| "template (Sub v # ps) =
     (case ToString v of
        Inl e \<Rightarrow> Inl e
      | Inr t \<Rightarrow> (case template ps of Inl e \<Rightarrow> Inl e | Inr r \<Rightarrow> Inr (t @ r)))"

text \<open>A default parameter value applies when the argument is \<^verbatim>\<open>undefined\<close>, and only then.\<close>

definition default_param :: "jsval \<Rightarrow> jsval \<Rightarrow> jsval" where
  "default_param v d = (if v = JUndefined then d else v)"

definition twenty :: jsval where
  "twenty = JNum (NumDecimal False 2 2)"

definition fifty :: jsval where
  "fifty = JNum (NumDecimal False 5 2)"

text \<open>Issue the request for an endpoint whose construction may already have thrown.\<close>

definition fetch ::
  "world \<Rightarrow> exn + string \<Rightarrow> request_options \<Rightarrow> server \<Rightarrow> (exn + tool_result) \<times> server" where
  "fetch w endpoint options s =
     (case endpoint of
        Inl e \<Rightarrow> (Inl e, s)
      | Inr path \<Rightarrow> json_result w (makeSpotifyRequest w path options s))"

definition getUserProfile :: "world \<Rightarrow> server \<Rightarrow> (exn + tool_result) \<times> server" where
  "getUserProfile w s = fetch w (Inr ''/me'') no_options s"

definition getTopTracks ::
  "world \<Rightarrow> jsval \<Rightarrow> jsval \<Rightarrow> server \<Rightarrow> (exn + tool_result) \<times> server" where
  "getTopTracks w timeRange limit s =
     fetch w (template [Lit ''/me/top/tracks?time_range='',
                        Sub (default_param timeRange (JStr ''medium_term'')),
                        Lit ''&limit='', Sub (default_param limit twenty)]) no_options s"

definition getTopArtists ::
  "world \<Rightarrow> jsval \<Rightarrow> jsval \<Rightarrow> server \<Rightarrow> (exn + tool_result) \<times> server" where
  "getTopArtists w timeRange limit s =
     fetch w (template [Lit ''/me/top/artists?time_range='',
                        Sub (default_param timeRange (JStr ''medium_term'')),
                        Lit ''&limit='', Sub (default_param limit twenty)]) no_options s"

definition getRecentlyPlayed :: "world \<Rightarrow> jsval \<Rightarrow> server \<Rightarrow> (exn + tool_result) \<times> server" where
  "getRecentlyPlayed w limit s =
     fetch w (template [Lit ''/me/player/recently-played?limit='',
                        Sub (default_param limit twenty)]) no_options s"

definition searchTracks ::
  "world \<Rightarrow> jsval \<Rightarrow> jsval \<Rightarrow> server \<Rightarrow> (exn + tool_result) \<times> server" where
  "searchTracks w query limit s =
     fetch w (case ToString query of
                Inl e \<Rightarrow> Inl e
              | Inr q \<Rightarrow> template [Lit ''/search?q='', Lit (encodeURIComponent q),
                                   Lit ''&type=track&limit='', Sub (default_param limit twenty)])
       no_options s"

definition getTrackFeatures :: "world \<Rightarrow> jsval \<Rightarrow> server \<Rightarrow> (exn + tool_result) \<times> server" where
  "getTrackFeatures w trackIds s =
     fetch w (case js_join ''trackIds'' trackIds of
                Inl e \<Rightarrow> Inl e
              | Inr ids \<Rightarrow> Inr (''/audio-features?ids='' @ ids)) no_options s"

definition getPlaylists :: "world \<Rightarrow> jsval \<Rightarrow> server \<Rightarrow> (exn + tool_result) \<times> server" where
  "getPlaylists w limit s =
     fetch w (template [Lit ''/me/playlists?limit='', Sub (default_param limit twenty)])
       no_options s"

definition getPlaylistTracks ::
  "world \<Rightarrow> jsval \<Rightarrow> jsval \<Rightarrow> server \<Rightarrow> (exn + tool_result) \<times> server" where
  "getPlaylistTracks w playlistId limit s =
     fetch w (template [Lit ''/playlists/'', Sub playlistId, Lit ''/tracks?limit='',
                        Sub (default_param limit fifty)]) no_options s"

definition createPlaylist ::
  "world \<Rightarrow> jsval \<Rightarrow> jsval \<Rightarrow> jsval \<Rightarrow> server \<Rightarrow> (exn + tool_result) \<times> server" where
  "createPlaylist w name description isPublic s =
     (case makeSpotifyRequest w ''/me'' no_options s of
        (Inl e, s1) \<Rightarrow> (Inl e, s1)
      | (Inr profile, s1) \<Rightarrow>
          fetch w (case get_prop profile ''id'' of
                     Inl e \<Rightarrow> Inl e
                   | Inr uid \<Rightarrow> template [Lit ''/users/'', Sub uid, Lit ''/playlists''])
            (post_options (JObj [(''name'', name),
                                 (''description'', default_param description (JStr [])),
                                 (''public'', default_param isPublic (JBool False))])) s1)"

definition addTracksToPlaylist ::
  "world \<Rightarrow> jsval \<Rightarrow> jsval \<Rightarrow> server \<Rightarrow> (exn + tool_result) \<times> server" where
  "addTracksToPlaylist w playlistId trackUris s =
     fetch w (template [Lit ''/playlists/'', Sub playlistId, Lit ''/tracks''])
       (post_options (JObj [(''uris'', trackUris)])) s"

subsection \<open>Recommendations\<close>

text \<open>The body of the \<^verbatim>\<open>forEach\<close> callback of \<^verbatim>\<open>getRecommendations\<close>, and the loop over
  \<^verbatim>\<open>Object.entries(params)\<close>. An exception leaves the loop.\<close>

fun is_array :: "jsval \<Rightarrow> bool" where
  "is_array (JArr xs) = True"
| "is_array v = False"

definition append_param :: "URLSearchParams \<Rightarrow> string \<times> jsval \<Rightarrow> exn + URLSearchParams" where
  "append_param queryParams entry =
     (case entry of (key, v) \<Rightarrow>
        if v \<noteq> JUndefined \<and> v \<noteq> JNull then
          (if is_array v
           then (case js_join ''value'' v of
                   Inl e \<Rightarrow> Inl e
                 | Inr t \<Rightarrow> Inr (queryParams @ [(key, t)]))
           else (case toString_method v of
                   Inl e \<Rightarrow> Inl e
                 | Inr t \<Rightarrow> Inr (queryParams @ [(key, t)])))
        else Inr queryParams)"

fun forEach_param :: "URLSearchParams \<Rightarrow> (string \<times> jsval) list \<Rightarrow> exn + URLSearchParams" where
  "forEach_param queryParams [] = Inr queryParams"
| "forEach_param queryParams (entry # entries) =
     (case append_param queryParams entry of
        Inl e \<Rightarrow> Inl e
      | Inr queryParams' \<Rightarrow> forEach_param queryParams' entries)"

text \<open>The argument object of an invocation: absent (\<^verbatim>\<open>undefined\<close>) or an object; the
  request schema of the protocol library admits nothing else.\<close>

type_synonym arguments = "(string \<times> jsval) list option"

definition recommendations_endpoint :: "arguments \<Rightarrow> exn + string" where
  "recommendations_endpoint params =
     (case params of
        None \<Rightarrow> Inl (TypeError ''Cannot convert undefined or null to object'')
      | Some entries \<Rightarrow>
          (case forEach_param [] entries of
             Inl e \<Rightarrow> Inl e
           | Inr queryParams \<Rightarrow> Inr (''/recommendations?'' @ serialize queryParams)))"

definition getRecommendations :: "world \<Rightarrow> arguments \<Rightarrow> server \<Rightarrow> (exn + tool_result) \<times> server" where
  "getRecommendations w params s = fetch w (recommendations_endpoint params) no_options s"

section \<open>Authorization flow\<close>

definition SPOTIFY_REDIRECT_URI :: string where
  "SPOTIFY_REDIRECT_URI = ''http://localhost:8888/callback''"

definition SCOPES :: string where
  "SCOPES = join_with '' ''
     [''user-read-private'', ''user-read-email'', ''user-read-playback-state'',
      ''user-modify-playback-state'', ''user-read-currently-playing'', ''user-library-read'',
      ''user-library-modify'', ''user-read-playback-position'', ''user-top-read'',
      ''user-read-recently-played'', ''playlist-read-private'', ''playlist-read-collaborative'',
      ''playlist-modify-private'', ''playlist-modify-public'', ''user-follow-read'',
      ''user-follow-modify'']"

definition authUrl :: "world \<Rightarrow> string" where
  "authUrl w =
     ''https://accounts.spotify.com/authorize?'' @
     ''client_id='' @ client_id w @ ''&'' @
     ''response_type=code&'' @
     ''redirect_uri='' @ encodeURIComponent SPOTIFY_REDIRECT_URI @ ''&'' @
     ''scope='' @ encodeURIComponent SCOPES"

text \<open>A query parameter is absent or a string; absent and empty are falsy, and an absent
  one reads \<^verbatim>\<open>undefined\<close> where a string is wanted.\<close>

definition query_truthy :: "string option \<Rightarrow> bool" where
  "query_truthy q = (case q of None \<Rightarrow> False | Some t \<Rightarrow> t \<noteq> [])"

definition query_string :: "string option \<Rightarrow> string" where
  "query_string q = (case q of None \<Rightarrow> ''undefined'' | Some t \<Rightarrow> t)"

text \<open>\<^verbatim>\<open>resolve\<close> and \<^verbatim>\<open>reject\<close> settle the promise of the flow once; later calls do nothing.\<close>

definition settle :: "settled \<Rightarrow> server \<Rightarrow> server" where
  "settle outcome s = (if promise s = None then s\<lparr>promise := Some outcome\<rparr> else s)"

definition send_page :: "string \<Rightarrow> server \<Rightarrow> server" where
  "send_page t s = s\<lparr>pages := pages s @ [t]\<rparr>"

text \<open>The \<^verbatim>\<open>try\<close> block of the callback route up to \<^verbatim>\<open>saveTokens\<close>: exchange the code, take
  over all three token fields, write the token file.\<close>

definition exchange_try :: "world \<Rightarrow> callback \<Rightarrow> server \<Rightarrow> (exn + unit) \<times> server" where
  "exchange_try w cb s =
     (case post_token w [(''grant_type'', ''authorization_code''),
                         (''code'', query_string (code cb)),
                         (''redirect_uri'', SPOTIFY_REDIRECT_URI),
                         (''client_id'', client_id w),
                         (''client_secret'', client_secret w)] s of
        (Inl e, s1) \<Rightarrow> (Inl e, s1)
      | (Inr response_data, s1) \<Rightarrow>
          saveTokens w
            (s1\<lparr>accessToken := access_token response_data,
                refreshToken := refresh_token response_data,
                tokenExpiry := Some (expiry_after (now s1) (expires_in response_data))\<rparr>))"

text \<open>The route \<^verbatim>\<open>GET /callback\<close>. A request reaches the handler only while the listener
  is up. The listener is closed on the success path, and nowhere else in the handler.\<close>

definition on_callback :: "world \<Rightarrow> callback \<Rightarrow> server \<Rightarrow> server" where
  "on_callback w cb s =
     (if \<not> listening s then s
      else if query_truthy (error cb) then
        settle (Rejected (Error (''Authentication failed: '' @ query_string (error cb))))
          (send_page (''Authentication failed: '' @ query_string (error cb)) s)
      else
        (case exchange_try w cb s of
           (Inr u, s1) \<Rightarrow>
             settle (Resolved (envelope
                 ''Successfully authenticated with Spotify! You can now use all Spotify tools.''))
               ((send_page ''Authentication successful! You can close this window.'' s1)
                  \<lparr>listening := False\<rparr>)
         | (Inl e, s1) \<Rightarrow>
             settle (Rejected e) (send_page (''Authentication error: '' @ message e) s1)))"

text \<open>The timer, five minutes after the flow started: close the listener and reject.\<close>

definition on_timeout :: "server \<Rightarrow> server" where
  "on_timeout s = settle (Rejected (Error ''Authentication timeout'')) (s\<lparr>listening := False\<rparr>)"

text \<open>
  How an awaited call ends: it returns a value, it throws (the awaited promise rejects),
  or an exception is raised outside the promise, where no \<^verbatim>\<open>catch\<close> of the caller can see it:
  the exception is uncaught, the process ends and the caller gets no result.
\<close>

datatype 'a completion = Returned 'a | Threw exn | Escaped exn

definition settled_result :: "settled \<Rightarrow> tool_result completion" where
  "settled_result outcome = (case outcome of Resolved r \<Rightarrow> Returned r | Rejected e \<Rightarrow> Threw e)"

text \<open>The callbacks are served in order until one of them settles the promise; the
  awaiting caller resumes at that moment.\<close>

fun await_callbacks :: "world \<Rightarrow> callback list \<Rightarrow> server \<Rightarrow> server" where
  "await_callbacks w [] s = s"
| "await_callbacks w (cb # cbs) s =
     (let s' = on_callback w cb s in
      if promise s' = None then await_callbacks w cbs s' else s')"

text \<open>
  \<^verbatim>\<open>authenticate\<close>. The bind of port 8888 fails when a listener of this process is still up
  or another process holds the port.

  When the bind succeeds, the browser is opened and the call ends as soon as the promise
  settles: at the first callback, with the listener in the state the callback left it in,
  or, when no callback arrives, at the timer. Later callbacks and the timer of a flow that
  ended at a callback are events after the call (\<open>on_callback\<close>, \<open>on_timeout\<close>).

  When the bind fails and the failure is an \<^verbatim>\<open>error\<close> event, nothing listens for the event:
  the exception is raised outside the promise and escapes. When the failure is handed to
  the callback of \<^verbatim>\<open>listen\<close>, the callback opens the browser all the same; this flow has no
  listener, so callbacks are served by the earlier listener of this process while it is
  up, whose timer fires first; the promise of this flow stays pending until its own timer
  rejects it.
\<close>

definition EADDRINUSE :: exn where
  "EADDRINUSE = Error ''listen EADDRINUSE: address already in use :::8888''"

definition authenticate :: "world \<Rightarrow> server \<Rightarrow> tool_result completion \<times> server" where
  "authenticate w s =
     (if listening s \<or> port_taken w (flows s) then
        (case listen_error w of
           Unhandled \<Rightarrow> (Escaped EADDRINUSE, s\<lparr>flows := Suc (flows s)\<rparr>)
         | ToCallback \<Rightarrow>
             let s0 = s\<lparr>opened_urls := opened_urls s @ [authUrl w], flows := Suc (flows s)\<rparr>;
                 s1 = fold (on_callback w) (browser w (flows s)) s0
             in (Threw (Error ''Authentication timeout''),
                 if listening s then on_timeout s1 else s1))
      else
        (let s0 = s\<lparr>listening := True, promise := None,
                    opened_urls := opened_urls s @ [authUrl w], flows := Suc (flows s)\<rparr>;
             s1 = await_callbacks w (browser w (flows s)) s0
         in (case promise s1 of
               Some outcome \<Rightarrow> (settled_result outcome, s1)
             | None \<Rightarrow> (Threw (Error ''Authentication timeout''), on_timeout s1))))"

section \<open>Tool registry and dispatcher\<close>

text \<open>The names the \<^verbatim>\<open>ListTools\<close> handler declares, in its order.\<close>

definition tool_names :: "string list" where
  "tool_names =
     [''spotify_authenticate'', ''get_user_profile'', ''get_top_tracks'', ''get_top_artists'',
      ''get_recently_played'', ''search_tracks'', ''get_track_features'', ''get_playlists'',
      ''get_playlist_tracks'', ''create_playlist'', ''add_tracks_to_playlist'',
      ''get_recommendations'']"

text \<open>\<^verbatim>\<open>args.k\<close>: a TypeError when the invocation carries no argument object.\<close>

definition with_arg ::
  "arguments \<Rightarrow> string \<Rightarrow> server \<Rightarrow> (jsval \<Rightarrow> (exn + tool_result) \<times> server) \<Rightarrow>
     (exn + tool_result) \<times> server" where
  "with_arg args k s f =
     (case args of
        None \<Rightarrow> (Inl (cannot_read ''undefined'' k), s)
      | Some entries \<Rightarrow> f (case map_of entries k of None \<Rightarrow> JUndefined | Some v \<Rightarrow> v))"

text \<open>Awaiting a handler whose failures are all rejections of its promise.\<close>

definition awaited :: "(exn + tool_result) \<times> server \<Rightarrow> tool_result completion \<times> server" where
  "awaited x = (case x of (Inl e, s) \<Rightarrow> (Threw e, s) | (Inr r, s) \<Rightarrow> (Returned r, s))"

text \<open>The \<^verbatim>\<open>switch\<close> inside the \<^verbatim>\<open>try\<close> of the \<^verbatim>\<open>CallTool\<close> handler.\<close>

definition call_handler ::
  "world \<Rightarrow> string \<Rightarrow> arguments \<Rightarrow> server \<Rightarrow> tool_result completion \<times> server" where
  "call_handler w name args s =
     (if name = ''spotify_authenticate'' then authenticate w s
      else if name = ''get_user_profile'' then awaited (getUserProfile w s)
      else if name = ''get_top_tracks'' then
        awaited (with_arg args ''time_range'' s (\<lambda>time_range.
                 with_arg args ''limit'' s (\<lambda>limit. getTopTracks w time_range limit s)))
      else if name = ''get_top_artists'' then
        awaited (with_arg args ''time_range'' s (\<lambda>time_range.
                 with_arg args ''limit'' s (\<lambda>limit. getTopArtists w time_range limit s)))
      else if name = ''get_recently_played'' then
        awaited (with_arg args ''limit'' s (\<lambda>limit. getRecentlyPlayed w limit s))
      else if name = ''search_tracks'' then
        awaited (with_arg args ''query'' s (\<lambda>query.
                 with_arg args ''limit'' s (\<lambda>limit. searchTracks w query limit s)))
      else if name = ''get_track_features'' then
        awaited (with_arg args ''track_ids'' s (\<lambda>track_ids. getTrackFeatures w track_ids s))
      else if name = ''get_playlists'' then
        awaited (with_arg args ''limit'' s (\<lambda>limit. getPlaylists w limit s))
      else if name = ''get_playlist_tracks'' then
        awaited (with_arg args ''playlist_id'' s (\<lambda>playlist_id.
                 with_arg args ''limit'' s (\<lambda>limit. getPlaylistTracks w playlist_id limit s)))
      else if name = ''create_playlist'' then
        awaited (with_arg args ''name'' s (\<lambda>playlist_name.
                 with_arg args ''description'' s (\<lambda>description.
                 with_arg args ''public'' s (\<lambda>public.
                   createPlaylist w playlist_name description public s))))
      else if name = ''add_tracks_to_playlist'' then
        awaited (with_arg args ''playlist_id'' s (\<lambda>playlist_id.
                 with_arg args ''track_uris'' s (\<lambda>track_uris.
                   addTracksToPlaylist w playlist_id track_uris s)))
      else if name = ''get_recommendations'' then awaited (getRecommendations w args s)
      else (Threw (Error (''Unknown tool: '' @ name)), s))"

text \<open>The \<^verbatim>\<open>CallTool\<close> handler: whatever the \<^verbatim>\<open>switch\<close> throws is caught and reported in
  an envelope. The result \<open>Inl\<close> is an exception that escaped the handler: no result is
  produced.\<close>

definition callTool ::
  "world \<Rightarrow> string \<Rightarrow> arguments \<Rightarrow> server \<Rightarrow> (exn + tool_result) \<times> server" where
  "callTool w name args s =
     (case call_handler w name args s of
        (Returned r, s') \<Rightarrow> (Inr r, s')
      | (Threw e, s') \<Rightarrow> (Inr (envelope (''Error: '' @ message e)), s')
      | (Escaped e, s') \<Rightarrow> (Inl e, s'))"

section \<open>Observations and example environments\<close>

text \<open>The replies the remote API gave to the requests sent between two states, in order.\<close>

definition upstream_replies :: "server \<Rightarrow> server \<Rightarrow> jsval http_reply list" where
  "upstream_replies s s' = map snd (drop (length (api_log s)) (api_log s'))"

text \<open>The entries of an argument object whose value is neither \<^verbatim>\<open>undefined\<close> nor \<^verbatim>\<open>null\<close>.\<close>

definition supplied :: "(string \<times> jsval) list \<Rightarrow> (string \<times> jsval) list" where
  "supplied entries = filter (\<lambda>(k, v). v \<noteq> JUndefined \<and> v \<noteq> JNull) entries"

text \<open>A world whose two services answer from a script indexed by the call number, with a
  disk that accepts every write, no browser traffic, port 8888 free of other processes and
  bind failures emitted as events; a token reply granting a fresh
  access token for an hour; and a server that holds tokens with a given expiry at a given
  time.\<close>

definition scripted_world ::
  "(nat \<Rightarrow> token_body http_reply) \<Rightarrow> (nat \<Rightarrow> jsval http_reply) \<Rightarrow> world" where
  "scripted_world tokens replies =
     \<lparr>client_id = ''client'', client_secret = ''secret'',
      token_endpoint = (\<lambda>k form. (150, tokens k)),
      api = (\<lambda>k req. (80, replies k)),
      disk_write = (\<lambda>k. None),
      browser = (\<lambda>k. []),
      port_taken = (\<lambda>k. False),
      listen_error = Unhandled,
      JSON_parse = (\<lambda>t. None),
      JSON_stringify = (\<lambda>v. ''{}''),
      Date_parse = (\<lambda>t. InvalidDate),
      toISOString = (\<lambda>t. ''2026-11-03T00:00:00.000Z'')\<rparr>"

definition granted :: "jsval \<Rightarrow> token_body http_reply" where
  "granted rt =
     Reply 200 \<lparr>access_token = JStr ''fresh'', refresh_token = rt, expires_in = Seconds 3600\<rparr>"

definition quiet_world :: world where
  "quiet_world = scripted_world (\<lambda>k. granted JUndefined) (\<lambda>k. Reply 200 JNull)"

definition rotating_world :: world where
  "rotating_world = scripted_world (\<lambda>k. granted (JStr ''rotated'')) (\<lambda>k. Reply 200 JNull)"

definition unauthorized_once :: world where
  "unauthorized_once =
     scripted_world (\<lambda>k. granted JUndefined)
       (\<lambda>k. if k = 0 then Reply 401 JNull else Reply 200 (JStr ''ok''))"

definition unauthorized_always :: world where
  "unauthorized_always = scripted_world (\<lambda>k. granted JUndefined) (\<lambda>k. Reply 401 JNull)"

text \<open>A token endpoint that answers the first exchange with status 400, lets the second
  one fail without a reply, and grants from the third on.\<close>

definition refusing_world :: world where
  "refusing_world =
     scripted_world
       (\<lambda>k. if k = 0
            then Reply 400 \<lparr>access_token = JUndefined, refresh_token = JUndefined,
                            expires_in = NoLifetime\<rparr>
            else if k = 1 then NoReply ''connect ECONNREFUSED''
            else granted (JStr ''renew''))
       (\<lambda>k. Reply 200 JNull)"

definition holding :: "jsdate option \<Rightarrow> int \<Rightarrow> server" where
  "holding expiry t =
     (new_server Missing t)\<lparr>accessToken := JStr ''stale'', refreshToken := JStr ''renew'',
        tokenExpiry := expiry\<rparr>"

text \<open>A flow whose listener is up and whose promise is pending, and a callback that
  carries an authorization code.\<close>

definition awaiting_callback :: server where
  "awaiting_callback = (new_server Missing 0)\<lparr>listening := True\<rparr>"

definition code_callback :: callback where
  "code_callback = \<lparr>code = Some ''AQD5'', error = None\<rparr>"

text \<open>The same token endpoint, with a browser that completes the consent of every flow
  with that callback; and a server that has just started, with no token file.\<close>

definition consenting_world :: world where
  "consenting_world = refusing_world\<lparr>browser := (\<lambda>k. [code_callback])\<rparr>"

definition started :: server where
  "started = new_server Missing 0"

text \<open>The arguments \<^verbatim>\<open>{seed_genres: ["rock"], target_energy: 0.8}\<close>, and an argument object
  with a count above the declared maximum of 100, a key the schema does not declare and six
  seeds where the schema declares at most five.\<close>

definition rock_entries :: "(string \<times> jsval) list" where
  "rock_entries =
     [(''seed_genres'', JArr [JStr ''rock'']), (''target_energy'', JNum (NumDecimal False 8 0))]"

definition rock_arguments :: arguments where
  "rock_arguments = Some rock_entries"

definition unbounded_arguments :: "(string \<times> jsval) list" where
  "unbounded_arguments =
     [(''limit'', JNum (NumDecimal False 1 4)),
      (''seed_tracks'', JNull),
      (''market'', JStr ''US''),
      (''seed_genres'', JArr (map JStr [''rock'', ''pop'', ''jazz'', ''soul'', ''folk'', ''punk'']))]"

section \<open>Unfolding rules for concrete runs\<close>

lemmas run_defs =
  makeSpotifyRequest_def ensureValidToken_def expiry_due_def refreshAccessToken_def
  refresh_try_def post_token_def saveTokens_def send_api_def build_request_def axios_def
  expiry_after_def TimeClip_def no_options_def scripted_world_def granted_def holding_def
  new_server_def upstream_replies_def Let_def

lemmas encode_defs =
  recommendations_endpoint_def append_param_def serialize_def form_encode_def form_byte_def
  alphanumeric_def percent_byte_def hex_char_def decimal_to_string_def digits.simps
  digit_char_def Let_def

lemmas flow_defs =
  on_callback_def exchange_try_def settle_def send_page_def query_truthy_def query_string_def
  post_token_def saveTokens_def axios_def expiry_after_def TimeClip_def scripted_world_def
  granted_def new_server_def SPOTIFY_REDIRECT_URI_def Let_def

section \<open>What each step leaves alone\<close>

lemma saveTokens_frame:
  "saveTokens w s = (r, s') \<Longrightarrow>
     accessToken s' = accessToken s \<and> refreshToken s' = refreshToken s \<and>
     tokenExpiry s' = tokenExpiry s \<and> now s' = now s \<and> token_log s' = token_log s \<and>
     api_log s' = api_log s \<and> refresh_calls s' = refresh_calls s \<and>
     listening s' = listening s \<and> promise s' = promise s \<and> pages s' = pages s"
  by (auto simp: saveTokens_def Let_def split: option.splits jsdate.splits)

lemma saveTokens_ok:
  "saveTokens w s = (Inr u, s') \<Longrightarrow> \<exists>t. tokenExpiry s = Some (Instant t)"
  by (auto simp: saveTokens_def Let_def split: option.splits jsdate.splits)

lemma post_token_frame:
  "post_token w form s = (r, s') \<Longrightarrow>
     accessToken s' = accessToken s \<and> refreshToken s' = refreshToken s \<and>
     tokenExpiry s' = tokenExpiry s \<and> now s \<le> now s' \<and>
     api_log s' = api_log s \<and> refresh_calls s' = refresh_calls s \<and>
     listening s' = listening s \<and> promise s' = promise s \<and> pages s' = pages s"
  by (auto simp: post_token_def split: prod.splits)

lemma post_token_log:
  "post_token w form s = (r, s') \<Longrightarrow>
     \<exists>reply. token_log s' = token_log s @ [(form, reply)] \<and> r = axios reply"
  by (auto simp: post_token_def split: prod.splits)

lemma axios_ok:
  "axios reply = Inr d \<Longrightarrow> \<exists>st. reply = Reply st d \<and> 200 \<le> st \<and> st < 300"
  by (auto simp: axios_def split: http_reply.splits if_splits)

lemma refresh_try_ok:
  assumes "refresh_try w s = (Inr u, s')"
  shows "\<exists>form st d t. token_log s' = token_log s @ [(form, Reply st d)] \<and>
           200 \<le> st \<and> st < 300 \<and>
           accessToken s' = access_token d \<and>
           refreshToken s' = (if truthy (refresh_token d) then refresh_token d else refreshToken s) \<and>
           tokenExpiry s' = Some (Instant t) \<and> expiry_after (now s') (expires_in d) = Instant t \<and>
           now s \<le> now s'"
proof -
  from assms obtain rt where rt: "ToString (refreshToken s) = Inr rt"
    by (auto simp: refresh_try_def split: sum.splits)
  let ?form = "[(''grant_type'', ''refresh_token''), (''refresh_token'', rt),
                (''client_id'', client_id w), (''client_secret'', client_secret w)]"
  from assms rt obtain d s1 where post: "post_token w ?form s = (Inr d, s1)"
    by (auto simp: refresh_try_def split: sum.splits prod.splits)
  let ?s3 = "s1\<lparr>accessToken := access_token d,
                tokenExpiry := Some (expiry_after (now s1) (expires_in d))\<rparr>"
  let ?s4 = "if truthy (refresh_token d) then ?s3\<lparr>refreshToken := refresh_token d\<rparr> else ?s3"
  from assms rt post have save: "saveTokens w ?s4 = (Inr u, s')"
    by (simp add: refresh_try_def Let_def split del: if_split cong del: if_weak_cong)
  from post_token_log [OF post] obtain reply where
    log: "token_log s1 = token_log s @ [(?form, reply)]" and ax: "Inr d = axios reply"
    by blast
  from ax obtain st where st: "reply = Reply st d" "200 \<le> st" "st < 300"
    using axios_ok [of reply d] by auto
  note f1 = post_token_frame [OF post]
  note f2 = saveTokens_frame [OF save]
  from saveTokens_ok [OF save] obtain t where t: "tokenExpiry ?s4 = Some (Instant t)"
    by blast
  have "token_log s' = token_log s @ [(?form, Reply st d)]"
    using f2 log st by (simp split: if_splits)
  moreover have "accessToken s' = access_token d"
    using f2 by (simp split: if_splits)
  moreover have "refreshToken s' = (if truthy (refresh_token d) then refresh_token d else refreshToken s)"
    using f1 f2 by (simp split: if_splits)
  moreover have "tokenExpiry s' = Some (Instant t)"
    using f2 t by simp
  moreover have "now s' = now s1"
    using f2 by (simp split: if_splits)
  moreover have "expiry_after (now s1) (expires_in d) = Instant t"
    using t by (simp split: if_splits)
  moreover have "now s \<le> now s1"
    using f1 by simp
  ultimately show ?thesis
    using st by auto
qed

lemma refreshAccessToken_calls:
  "refreshAccessToken w s = (r, s') \<Longrightarrow> refresh_calls s' = Suc (refresh_calls s) \<and> api_log s' = api_log s"
  by (auto simp: refreshAccessToken_def refresh_try_def Let_def
      split: if_splits prod.splits sum.splits
      dest!: post_token_frame saveTokens_frame)


lemma refreshAccessToken_ok:
  assumes "refreshAccessToken w s = (Inr u, s')"
  shows "\<exists>form st d t. token_log s' = token_log s @ [(form, Reply st d)] \<and>
           200 \<le> st \<and> st < 300 \<and>
           accessToken s' = access_token d \<and>
           refreshToken s' = (if truthy (refresh_token d) then refresh_token d else refreshToken s) \<and>
           tokenExpiry s' = Some (Instant t) \<and> expiry_after (now s') (expires_in d) = Instant t \<and>
           now s \<le> now s'"
proof -
  let ?s = "s\<lparr>refresh_calls := Suc (refresh_calls s)\<rparr>"
  from assms have "refresh_try w ?s = (Inr u, s')"
    by (auto simp: refreshAccessToken_def Let_def split: if_splits prod.splits sum.splits)
  from refresh_try_ok [OF this] show ?thesis by (simp split del: if_split cong del: if_weak_cong)
qed


lemma ensureValidToken_frame:
  "ensureValidToken w s = (r, s1) \<Longrightarrow>
     api_log s1 = api_log s \<and>
     (r = Inr () \<longrightarrow> refresh_calls s1 = refresh_calls s + (if expiry_due s then 1 else 0))"
  by (auto simp: ensureValidToken_def split: if_splits dest: refreshAccessToken_calls)

lemma send_api_log:
  "send_api w req s = (r, s') \<Longrightarrow>
     \<exists>reply. api_log s' = api_log s @ [(req, reply)] \<and> r = axios reply \<and>
       refresh_calls s' = refresh_calls s"
  by (auto simp: send_api_def split: prod.splits)

text \<open>Two concrete refreshes, run from a state whose expiry has passed.\<close>

lemma quiet_refresh:
  "refreshAccessToken quiet_world (holding (Some (Instant 0)) 1000) =
    (Inr (), (holding (Some (Instant 3601150)) 1150)
       \<lparr>accessToken := JStr ''fresh'',
        token_file := Content ''{}'',
        token_log := [([(''grant_type'', ''refresh_token''), (''refresh_token'', ''renew''),
                        (''client_id'', ''client''), (''client_secret'', ''secret'')],
                       granted JUndefined)],
        refresh_calls := 1, disk_writes := 1\<rparr>)"
  by (simp add: refreshAccessToken_def refresh_try_def post_token_def saveTokens_def
      quiet_world_def scripted_world_def holding_def new_server_def granted_def axios_def
      expiry_after_def TimeClip_def Let_def)


lemma rotating_refresh:
  "refreshAccessToken rotating_world (holding (Some (Instant 0)) 1000) =
    (Inr (), (holding (Some (Instant 3601150)) 1150)
       \<lparr>accessToken := JStr ''fresh'', refreshToken := JStr ''rotated'',
        token_file := Content ''{}'',
        token_log := [([(''grant_type'', ''refresh_token''), (''refresh_token'', ''renew''),
                        (''client_id'', ''client''), (''client_secret'', ''secret'')],
                       granted (JStr ''rotated''))],
        refresh_calls := 1, disk_writes := 1\<rparr>)"
  by (simp add: refreshAccessToken_def refresh_try_def post_token_def saveTokens_def
      rotating_world_def scripted_world_def holding_def new_server_def granted_def axios_def
      expiry_after_def TimeClip_def Let_def)

section \<open>Token manager: states without an expiry\<close>

text \<open>A token file that parses to an object without \<^verbatim>\<open>expires_at\<close> loads an invalid date:
  \<^verbatim>\<open>new Date(undefined)\<close>.\<close>

lemma loadTokens_without_expires_at:
  assumes "token_file s = Content txt" and "JSON_parse w txt = Some (JObj entries)"
    and "map_of entries ''expires_at'' = None"
  shows "tokenExpiry (loadTokens w s) = Some InvalidDate"
  using assms by (simp add: loadTokens_def)

text \<open>
  Claim C9. When an access token is held and no expiry instant is recorded, either because
  \<open>tokenExpiry\<close> is \<^verbatim>\<open>null\<close> or because it is an invalid date, \<open>ensureValidToken\<close> returns
  normally and leaves the whole state as it was: no refresh is entered and nothing is sent
  to the token endpoint, whatever the clock \<open>now s\<close> says.
\<close>

theorem ensureValidToken_without_expiry:
  assumes "truthy (accessToken s)"
    and "tokenExpiry s = None \<or> tokenExpiry s = Some InvalidDate"
  shows "ensureValidToken w s = (Inr (), s)"
  using assms by (auto simp: ensureValidToken_def expiry_due_def)

theorem ensureValidToken_without_expiry_witness:
  "ensureValidToken quiet_world (holding None 1762128000000)
     = (Inr (), holding None 1762128000000) \<and>
   ensureValidToken quiet_world (holding (Some InvalidDate) 1762128000000)
     = (Inr (), holding (Some InvalidDate) 1762128000000)"
  using ensureValidToken_without_expiry [of "holding None 1762128000000"]
    ensureValidToken_without_expiry [of "holding (Some InvalidDate) 1762128000000"]
  by (simp add: holding_def new_server_def)

section \<open>Credential store: a missing or corrupt token file\<close>

text \<open>
  Claim C5. When the token file is missing, or its text does not parse as JSON, the
  constructor (which runs \<open>loadTokens\<close>, a function with no way to fail) leaves all three
  token fields \<^verbatim>\<open>null\<close>, and \<open>ensureValidToken\<close> on that state fails with the error that asks
  the caller to authenticate, changing nothing.
\<close>

theorem load_missing_or_corrupt:
  assumes "f = Missing \<or> (\<exists>txt. f = Content txt \<and> JSON_parse w txt = None)"
  shows "constructor w f t = new_server f t \<and>
         accessToken (constructor w f t) = JNull \<and>
         refreshToken (constructor w f t) = JNull \<and>
         tokenExpiry (constructor w f t) = None \<and>
         ensureValidToken w (constructor w f t) =
           (Inl (Error ''No access token. Please authenticate first using the spotify_authenticate tool.''),
            constructor w f t)"
proof -
  have "loadTokens w (new_server f t) = new_server f t"
    using assms by (auto simp: loadTokens_def new_server_def)
  then have c: "constructor w f t = new_server f t"
    by (simp add: constructor_def)
  show ?thesis
    unfolding c by (simp add: new_server_def ensureValidToken_def)
qed

theorem load_missing_or_corrupt_witness:
  "ensureValidToken quiet_world (constructor quiet_world Missing 0) =
     (Inl (Error ''No access token. Please authenticate first using the spotify_authenticate tool.''),
      new_server Missing 0) \<and>
   ensureValidToken quiet_world (constructor quiet_world (Content ''{oops'') 0) =
     (Inl (Error ''No access token. Please authenticate first using the spotify_authenticate tool.''),
      new_server (Content ''{oops'') 0)"
proof -
  have absent: "Missing = Missing \<or> (\<exists>txt. Missing = Content txt \<and> JSON_parse quiet_world txt = None)"
    by simp
  have corrupt: "Content ''{oops'' = Missing \<or>
      (\<exists>txt. Content ''{oops'' = Content txt \<and> JSON_parse quiet_world txt = None)"
    by (simp add: quiet_world_def scripted_world_def)
  show ?thesis
    using load_missing_or_corrupt [OF absent, of 0] load_missing_or_corrupt [OF corrupt, of 0]
    by auto
qed

section \<open>Token manager: what a successful refresh changes\<close>

text \<open>
  Claim C3. After every refresh that returns normally, where \<open>d\<close> is the body of the reply
  logged for it: the access token is the reply's, the expiry is the clock after the reply
  plus the reported lifetime, and the refresh token is the reply's when the reply carries
  one (a truthy value) and is the one held before when the reply omits it (or carries a
  falsy value).
\<close>

theorem refresh_token_replaced_or_kept:
  assumes "refreshAccessToken w s = (Inr u, s')"
    and "snd (last (token_log s')) = Reply st d"
  shows "accessToken s' = access_token d \<and>
         tokenExpiry s' = Some (expiry_after (now s') (expires_in d)) \<and>
         (truthy (refresh_token d) \<longrightarrow> refreshToken s' = refresh_token d) \<and>
         (refresh_token d = JUndefined \<longrightarrow> refreshToken s' = refreshToken s) \<and>
         (\<not> truthy (refresh_token d) \<longrightarrow> refreshToken s' = refreshToken s)"
proof -
  from refreshAccessToken_ok [OF assms(1)] obtain form st' d' t where
    ok: "token_log s' = token_log s @ [(form, Reply st' d')]"
      "accessToken s' = access_token d'"
      "refreshToken s' = (if truthy (refresh_token d') then refresh_token d' else refreshToken s)"
      "tokenExpiry s' = Some (Instant t)" "expiry_after (now s') (expires_in d') = Instant t"
    by blast
  from ok(1) assms(2) have "d' = d" by simp
  with ok show ?thesis by auto
qed

theorem refresh_token_replaced_or_kept_witness:
  "refreshToken (snd (refreshAccessToken rotating_world (holding (Some (Instant 0)) 1000)))
     = JStr ''rotated'' \<and>
   refreshToken (snd (refreshAccessToken quiet_world (holding (Some (Instant 0)) 1000)))
     = JStr ''renew'' \<and>
   accessToken (snd (refreshAccessToken quiet_world (holding (Some (Instant 0)) 1000)))
     = JStr ''fresh'' \<and>
   tokenExpiry (snd (refreshAccessToken quiet_world (holding (Some (Instant 0)) 1000)))
     = Some (Instant 3601150)"
proof -
  let ?s = "holding (Some (Instant 0)) 1000"
  let ?kept = "\<lparr>access_token = JStr ''fresh'', refresh_token = JUndefined, expires_in = Seconds 3600\<rparr>"
  let ?new = "\<lparr>access_token = JStr ''fresh'', refresh_token = JStr ''rotated'', expires_in = Seconds 3600\<rparr>"
  have run1: "refreshAccessToken rotating_world ?s = (Inr (), snd (refreshAccessToken rotating_world ?s))"
    by (simp add: rotating_refresh)
  have reply1: "snd (last (token_log (snd (refreshAccessToken rotating_world ?s)))) = Reply 200 ?new"
    by (simp add: rotating_refresh granted_def)
  have run2: "refreshAccessToken quiet_world ?s = (Inr (), snd (refreshAccessToken quiet_world ?s))"
    by (simp add: quiet_refresh)
  have reply2: "snd (last (token_log (snd (refreshAccessToken quiet_world ?s)))) = Reply 200 ?kept"
    by (simp add: quiet_refresh granted_def)
  have old: "refreshToken ?s = JStr ''renew''"
    by (simp add: holding_def)
  have t: "now (snd (refreshAccessToken quiet_world ?s)) = 1150"
    by (simp only: quiet_refresh) (simp add: holding_def new_server_def)
  show ?thesis
    using refresh_token_replaced_or_kept [OF run1 reply1]
      refresh_token_replaced_or_kept [OF run2 reply2] old t
    by (simp add: expiry_after_def TimeClip_def)
qed

section \<open>Token manager: an expiry that has passed\<close>




section \<open>API gateway: one retry after a 401\<close>

lemma makeSpotifyRequest_shape:
  assumes "makeSpotifyRequest w endpoint options s = (r, s')"
  shows "upstream_replies s s' = [] \<or>
         (\<exists>reply. upstream_replies s s' = [reply]) \<or>
         (\<exists>first second err. upstream_replies s s' = [first, second] \<and>
            axios first = Inl err \<and> response_status err = Some 401 \<and> r = axios second \<and>
            refresh_calls s' = refresh_calls s + (if expiry_due s then 2 else 1))"
proof -
  obtain r0 s1 where ev: "ensureValidToken w s = (r0, s1)"
    by (cases "ensureValidToken w s")
  note f0 = ensureValidToken_frame [OF ev]
  show ?thesis
  proof (cases r0)
    case (Inl e)
    with assms ev have "s' = s1" by (simp add: makeSpotifyRequest_def)
    with f0 show ?thesis by (simp add: upstream_replies_def)
  next
    case (Inr u)
    show ?thesis
    proof (cases "ToString (accessToken s1)")
      case (Inl e)
      with assms ev Inr have "s' = s1" by (simp add: makeSpotifyRequest_def)
      with f0 show ?thesis by (simp add: upstream_replies_def)
    next
      case tok: (Inr token)
      obtain r1 s2 where first: "send_api w (build_request endpoint options token) s1 = (r1, s2)"
        by (cases "send_api w (build_request endpoint options token) s1")
      from send_api_log [OF first] obtain reply1 where
        l1: "api_log s2 = api_log s1 @ [(build_request endpoint options token, reply1)]"
          "r1 = axios reply1" "refresh_calls s2 = refresh_calls s1"
        by blast
      have one: "upstream_replies s s2 = [reply1]"
        using l1 f0 by (simp add: upstream_replies_def)
      show ?thesis
      proof (cases "\<exists>err. r1 = Inl err \<and> response_status err = Some 401")
        case False
        with assms ev Inr tok first have "s' = s2"
          by (auto simp: makeSpotifyRequest_def split: sum.splits)
        with one show ?thesis by simp
      next
        case True
        then obtain err where err: "r1 = Inl err" "response_status err = Some 401"
          by blast
        obtain r2 s3 where rf: "refreshAccessToken w s2 = (r2, s3)"
          by (cases "refreshAccessToken w s2")
        note f2 = refreshAccessToken_calls [OF rf]
        show ?thesis
        proof (cases "\<exists>token'. r2 = Inr () \<and> ToString (accessToken s3) = Inr token'")
          case False
          with assms ev Inr tok first err rf have "s' = s3"
            by (auto simp: makeSpotifyRequest_def split: sum.splits)
          with one f2 l1 f0 show ?thesis by (simp add: upstream_replies_def)
        next
          case True
          then obtain token' where ok: "r2 = Inr ()" "ToString (accessToken s3) = Inr token'"
            by blast
          with assms ev Inr tok first err rf
          have second: "send_api w (build_request endpoint options token') s3 = (r, s')"
            by (simp add: makeSpotifyRequest_def)
          from send_api_log [OF second] obtain reply2 where
            l2: "api_log s' = api_log s3 @ [(build_request endpoint options token', reply2)]"
              "r = axios reply2" "refresh_calls s' = refresh_calls s3"
            by blast
          have "upstream_replies s s' = [reply1, reply2]"
            using l1 l2 f0 f2 by (simp add: upstream_replies_def)
          moreover have "refresh_calls s' = refresh_calls s + (if expiry_due s then 2 else 1)"
            using l1 l2 f0 f2 Inr by simp
          ultimately show ?thesis
            using err l1 l2 by auto
        qed
      qed
    qed
  qed
qed


text \<open>
  Claim C1, as the code has it. Suppose \<open>ensureValidToken\<close> lets the call through, the
  remote API answers the first request with status 401, the refresh that follows succeeds,
  and the API answers the second request with \<open>reply\<close>. Then the call sends exactly those two
  requests, its outcome is what axios makes of \<open>reply\<close> (the body when \<open>reply\<close> is a 200, the
  401 error when it is another 401), and \<open>refreshAccessToken\<close> was entered once for the 401,
  and once more before the first request exactly when the recorded expiry was due on
  entry: one refresh in all when the token was not due, two when it was. No call, whatever
  the world, sends more than two upstream requests.
\<close>

theorem makeSpotifyRequest_single_retry:
  assumes valid: "ensureValidToken w s = (Inr u, s1)"
    and token: "ToString (accessToken s1) = Inr token"
    and first: "api w (length (api_log s)) (build_request endpoint options token)
                  = (ms, Reply 401 d)"
    and refresh: "refreshAccessToken w
                    (s1\<lparr>now := now s1 + int ms,
                        api_log := api_log s1 @ [(build_request endpoint options token, Reply 401 d)]\<rparr>)
                  = (Inr u', s3)"
    and token': "ToString (accessToken s3) = Inr token'"
    and second: "api w (Suc (length (api_log s))) (build_request endpoint options token')
                   = (ms', reply)"
  shows "(\<exists>s'. makeSpotifyRequest w endpoint options s = (axios reply, s') \<and>
            upstream_replies s s' = [Reply 401 d, reply] \<and>
            refresh_calls s' = refresh_calls s + (if expiry_due s then 2 else 1)) \<and>
         (reply = Reply 200 b \<longrightarrow> axios reply = Inr b) \<and>
         (reply = Reply 401 d' \<longrightarrow>
            axios reply = Inl (AxiosError (Some 401) ''Request failed with status code 401'')) \<and>
         (\<forall>w0 endpoint0 options0 s0.
            length (upstream_replies s0 (snd (makeSpotifyRequest w0 endpoint0 options0 s0))) \<le> 2)"
proof -
  let ?req = "build_request endpoint options token"
  let ?req' = "build_request endpoint options token'"
  let ?s2 = "s1\<lparr>now := now s1 + int ms, api_log := api_log s1 @ [(?req, Reply 401 d)]\<rparr>"
  let ?s' = "s3\<lparr>now := now s3 + int ms', api_log := api_log s3 @ [(?req', reply)]\<rparr>"
  note f0 = ensureValidToken_frame [OF valid]
  note f2 = refreshAccessToken_calls [OF refresh]
  have sent: "send_api w ?req s1 =
      (Inl (AxiosError (Some 401) (''Request failed with status code '' @ digits 401)), ?s2)"
    using first f0 by (simp add: send_api_def axios_def)
  have resent: "send_api w ?req' s3 = (axios reply, ?s')"
    using second f0 f2 by (simp add: send_api_def)
  have run: "makeSpotifyRequest w endpoint options s = (axios reply, ?s')"
    using valid token sent refresh token' resent by (simp add: makeSpotifyRequest_def)
  have log: "upstream_replies s ?s' = [Reply 401 d, reply]"
    using f0 f2 by (simp add: upstream_replies_def)
  have calls: "refresh_calls ?s' = refresh_calls s + (if expiry_due s then 2 else 1)"
    using f0 f2 by simp
  have unauthorized: "axios (Reply 401 d') =
      Inl (AxiosError (Some 401) ''Request failed with status code 401'')"
    by (simp add: axios_def digits.simps digit_char_def)
  have bound: "length (upstream_replies s0 (snd (makeSpotifyRequest w0 endpoint0 options0 s0))) \<le> 2"
    for w0 endpoint0 options0 s0
    using makeSpotifyRequest_shape [of w0 endpoint0 options0 s0
        "fst (makeSpotifyRequest w0 endpoint0 options0 s0)"
        "snd (makeSpotifyRequest w0 endpoint0 options0 s0)"]
    by auto
  from run log calls have "\<exists>s'. makeSpotifyRequest w endpoint options s = (axios reply, s') \<and>
      upstream_replies s s' = [Reply 401 d, reply] \<and>
      refresh_calls s' = refresh_calls s + (if expiry_due s then 2 else 1)"
    by blast
  moreover have "reply = Reply 200 b \<longrightarrow> axios reply = Inr b"
    by (simp add: axios_def)
  ultimately show ?thesis
    using unauthorized bound by blast
qed

text \<open>Two runs from a state whose expiry lies ahead of the clock: the API answers 401
  and then 200, and the API answers 401 twice.\<close>

theorem makeSpotifyRequest_single_retry_witness:
  "fst (makeSpotifyRequest unauthorized_once ''/me'' no_options (holding (Some (Instant 5000000)) 1000))
     = Inr (JStr ''ok'') \<and>
   upstream_replies (holding (Some (Instant 5000000)) 1000)
     (snd (makeSpotifyRequest unauthorized_once ''/me'' no_options (holding (Some (Instant 5000000)) 1000)))
     = [Reply 401 JNull, Reply 200 (JStr ''ok'')] \<and>
   refresh_calls
     (snd (makeSpotifyRequest unauthorized_once ''/me'' no_options (holding (Some (Instant 5000000)) 1000)))
     = 1 \<and>
   fst (makeSpotifyRequest unauthorized_always ''/me'' no_options (holding (Some (Instant 5000000)) 1000))
     = Inl (AxiosError (Some 401) ''Request failed with status code 401'') \<and>
   upstream_replies (holding (Some (Instant 5000000)) 1000)
     (snd (makeSpotifyRequest unauthorized_always ''/me'' no_options (holding (Some (Instant 5000000)) 1000)))
     = [Reply 401 JNull, Reply 401 JNull] \<and>
   refresh_calls
     (snd (makeSpotifyRequest unauthorized_always ''/me'' no_options
            (holding (Some (Instant 5000000)) 1000)))
     = 1"
proof -
  let ?s = "holding (Some (Instant 5000000)) 1000"
  let ?req = "build_request ''/me'' no_options ''stale''"
  let ?req' = "build_request ''/me'' no_options ''fresh''"
  let ?s2 = "?s\<lparr>now := now ?s + int 80, api_log := api_log ?s @ [(?req, Reply 401 JNull)]\<rparr>"
  have fresh: "\<not> expiry_due ?s" and calls: "refresh_calls ?s = 0" and log: "api_log ?s = []"
    by (simp_all add: expiry_due_def holding_def new_server_def)
  have token: "ToString (accessToken ?s) = Inr ''stale''"
    by (simp add: holding_def new_server_def)
  have once: "fst (makeSpotifyRequest unauthorized_once ''/me'' no_options ?s) = Inr (JStr ''ok'') \<and>
      upstream_replies ?s (snd (makeSpotifyRequest unauthorized_once ''/me'' no_options ?s))
        = [Reply 401 JNull, Reply 200 (JStr ''ok'')] \<and>
      refresh_calls (snd (makeSpotifyRequest unauthorized_once ''/me'' no_options ?s)) = 1"
  proof -
    let ?w = unauthorized_once
    let ?s3 = "snd (refreshAccessToken ?w ?s2)"
    have valid: "ensureValidToken ?w ?s = (Inr (), ?s)"
      by (simp add: ensureValidToken_def expiry_due_def holding_def new_server_def)
    have first: "api ?w (length (api_log ?s)) ?req = (80, Reply 401 JNull)"
      by (simp add: log unauthorized_once_def scripted_world_def)
    have refresh: "refreshAccessToken ?w ?s2 = (Inr (), ?s3)"
      by (simp add: run_defs unauthorized_once_def)
    have token': "ToString (accessToken ?s3) = Inr ''fresh''"
      by (simp add: run_defs unauthorized_once_def)
    have second: "api ?w (Suc (length (api_log ?s))) ?req' = (80, Reply 200 (JStr ''ok''))"
      by (simp add: log unauthorized_once_def scripted_world_def)
    from makeSpotifyRequest_single_retry [OF valid token first refresh token' second,
        of "JStr ''ok''"]
    obtain s' where "makeSpotifyRequest ?w ''/me'' no_options ?s = (Inr (JStr ''ok''), s')"
      and "upstream_replies ?s s' = [Reply 401 JNull, Reply 200 (JStr ''ok'')]"
      and "refresh_calls s' = refresh_calls ?s + (if expiry_due ?s then 2 else 1)"
      by auto
    with fresh calls show ?thesis by simp
  qed
  have always: "fst (makeSpotifyRequest unauthorized_always ''/me'' no_options ?s) =
        Inl (AxiosError (Some 401) ''Request failed with status code 401'') \<and>
      upstream_replies ?s (snd (makeSpotifyRequest unauthorized_always ''/me'' no_options ?s))
        = [Reply 401 JNull, Reply 401 JNull] \<and>
      refresh_calls (snd (makeSpotifyRequest unauthorized_always ''/me'' no_options ?s)) = 1"
  proof -
    let ?w = unauthorized_always
    let ?s3 = "snd (refreshAccessToken ?w ?s2)"
    have valid: "ensureValidToken ?w ?s = (Inr (), ?s)"
      by (simp add: ensureValidToken_def expiry_due_def holding_def new_server_def)
    have first: "api ?w (length (api_log ?s)) ?req = (80, Reply 401 JNull)"
      by (simp add: log unauthorized_always_def scripted_world_def)
    have refresh: "refreshAccessToken ?w ?s2 = (Inr (), ?s3)"
      by (simp add: run_defs unauthorized_always_def)
    have token': "ToString (accessToken ?s3) = Inr ''fresh''"
      by (simp add: run_defs unauthorized_always_def)
    have second: "api ?w (Suc (length (api_log ?s))) ?req' = (80, Reply 401 JNull)"
      by (simp add: log unauthorized_always_def scripted_world_def)
    from makeSpotifyRequest_single_retry [OF valid token first refresh token' second,
        where d' = JNull]
    obtain s' where "makeSpotifyRequest ?w ''/me'' no_options ?s =
        (Inl (AxiosError (Some 401) ''Request failed with status code 401''), s')"
      and "upstream_replies ?s s' = [Reply 401 JNull, Reply 401 JNull]"
      and "refresh_calls s' = refresh_calls ?s + (if expiry_due ?s then 2 else 1)"
      by auto
    with fresh calls show ?thesis by simp
  qed
  from once always show ?thesis by simp
qed

text \<open>A run in which the first reply is a 401 and the retry succeeds, and which refreshes
  twice: the expiry had passed when the call began, so \<open>ensureValidToken\<close> refreshed before
  the first request, and the 401 caused the second refresh.\<close>

theorem makeSpotifyRequest_two_refreshes:
  "upstream_replies (holding (Some (Instant 0)) 1000)
     (snd (makeSpotifyRequest unauthorized_once ''/me'' no_options (holding (Some (Instant 0)) 1000)))
     = [Reply 401 JNull, Reply 200 (JStr ''ok'')] \<and>
   fst (makeSpotifyRequest unauthorized_once ''/me'' no_options (holding (Some (Instant 0)) 1000))
     = Inr (JStr ''ok'') \<and>
   refresh_calls (holding (Some (Instant 0)) 1000) = 0 \<and>
   refresh_calls
     (snd (makeSpotifyRequest unauthorized_once ''/me'' no_options (holding (Some (Instant 0)) 1000)))
     = 2"
  by (simp add: run_defs unauthorized_once_def)

section \<open>Dispatcher: every result is one text item\<close>

lemma fetch_envelope:
  "fetch w endpoint options s = (Inr r, s') \<Longrightarrow> \<exists>t. r = envelope t"
  by (auto simp: fetch_def json_result_def split: sum.splits prod.splits)

lemma with_arg_envelope:
  assumes "with_arg args k s f = (Inr r, s')"
    and "\<And>v. f v = (Inr r, s') \<Longrightarrow> \<exists>t. r = envelope t"
  shows "\<exists>t. r = envelope t"
  using assms by (auto simp: with_arg_def split: option.splits)

lemma awaited_returned: "awaited x = (Returned r, s') \<longleftrightarrow> x = (Inr r, s')"
  by (cases x) (auto simp: awaited_def split: sum.splits)

lemma awaited_not_escaped: "awaited x \<noteq> (Escaped e, s')"
  by (cases x) (auto simp: awaited_def split: sum.splits)

lemma on_callback_resolved:
  assumes "\<forall>r. promise s = Some (Resolved r) \<longrightarrow> (\<exists>t. r = envelope t)"
  shows "\<forall>r. promise (on_callback w cb s) = Some (Resolved r) \<longrightarrow> (\<exists>t. r = envelope t)"
  using assms
  by (auto simp: on_callback_def settle_def send_page_def exchange_try_def
      split: if_splits prod.splits sum.splits dest!: post_token_frame saveTokens_frame)

lemma await_callbacks_resolved:
  "\<forall>r. promise s = Some (Resolved r) \<longrightarrow> (\<exists>t. r = envelope t) \<Longrightarrow>
   \<forall>r. promise (await_callbacks w cbs s) = Some (Resolved r) \<longrightarrow> (\<exists>t. r = envelope t)"
proof (induction cbs arbitrary: s)
  case Nil
  then show ?case by simp
next
  case (Cons cb cbs)
  from on_callback_resolved [OF Cons.prems] have step:
    "\<forall>r. promise (on_callback w cb s) = Some (Resolved r) \<longrightarrow> (\<exists>t. r = envelope t)" .
  show ?case
  proof (cases "promise (on_callback w cb s) = None")
    case True
    with Cons.IH [OF step] show ?thesis by (simp add: Let_def)
  next
    case False
    with step show ?thesis by (auto simp: Let_def)
  qed
qed

lemma authenticate_envelope:
  assumes "authenticate w s = (Returned r, s')"
  shows "\<exists>t. r = envelope t"
proof -
  let ?s0 = "s\<lparr>listening := True, promise := None,
                opened_urls := opened_urls s @ [authUrl w], flows := Suc (flows s)\<rparr>"
  let ?s1 = "await_callbacks w (browser w (flows s)) ?s0"
  have "\<forall>r. promise ?s0 = Some (Resolved r) \<longrightarrow> (\<exists>t. r = envelope t)"
    by simp
  from await_callbacks_resolved [OF this] have
    inv: "\<forall>r. promise ?s1 = Some (Resolved r) \<longrightarrow> (\<exists>t. r = envelope t)" .
  from assms have "promise ?s1 = Some (Resolved r)"
    by (auto simp: authenticate_def settled_result_def Let_def
        split: if_splits listen_policy.splits option.splits settled.splits)
  with inv show ?thesis by blast
qed

text \<open>The one exception that escapes: a failed bind that is emitted as an event.\<close>

lemma authenticate_escaped:
  "authenticate w s = (Escaped e, s') \<longleftrightarrow>
     (listening s \<or> port_taken w (flows s)) \<and> listen_error w = Unhandled \<and>
     e = EADDRINUSE \<and> s' = s\<lparr>flows := Suc (flows s)\<rparr>"
  by (auto simp: authenticate_def settled_result_def Let_def
      split: listen_policy.splits option.splits settled.splits)

lemma call_handler_envelope:
  assumes "call_handler w name args s = (Returned r, s')"
  shows "\<exists>t. r = envelope t"
  using assms
  unfolding call_handler_def getUserProfile_def getTopTracks_def getTopArtists_def
    getRecentlyPlayed_def searchTracks_def getTrackFeatures_def getPlaylists_def
    getPlaylistTracks_def addTracksToPlaylist_def getRecommendations_def
  by (auto split: if_splits prod.splits sum.splits
      elim!: with_arg_envelope dest: fetch_envelope authenticate_envelope
      simp: createPlaylist_def awaited_returned)

lemma call_handler_escaped:
  "call_handler w name args s = (Escaped e, s') \<longleftrightarrow>
     name = ''spotify_authenticate'' \<and> authenticate w s = (Escaped e, s')"
  by (simp add: call_handler_def awaited_not_escaped)

text \<open>
  Claim C8. Whatever the tool name, the arguments, the world and the state, what the
  \<^verbatim>\<open>CallTool\<close> handler returns is a content list with exactly one item, of type \<^verbatim>\<open>text\<close>,
  carrying a string. It returns in every case but one, in which nothing at all is
  returned: \<^verbatim>\<open>spotify_authenticate\<close> invoked while port 8888 cannot be bound, in a world that
  emits the failure as an event.
\<close>

theorem callTool_single_text_item:
  "(\<exists>t. fst (callTool w name args s) = Inr [\<lparr>item_type = ''text'', item_text = t\<rparr>]) \<or>
   (name = ''spotify_authenticate'' \<and> (listening s \<or> port_taken w (flows s)) \<and>
    listen_error w = Unhandled \<and> fst (callTool w name args s) = Inl EADDRINUSE)"
proof (cases "call_handler w name args s")
  case (Pair c s')
  show ?thesis
  proof (cases c)
    case (Returned res)
    with Pair call_handler_envelope [of w name args s res s'] show ?thesis
      by (auto simp: callTool_def envelope_def)
  next
    case (Threw e)
    with Pair show ?thesis by (simp add: callTool_def envelope_def)
  next
    case (Escaped e)
    with Pair have "name = ''spotify_authenticate''" and "authenticate w s = (Escaped e, s')"
      using call_handler_escaped [of w name args s e s'] by simp_all
    with Pair Escaped show ?thesis
      by (auto simp: callTool_def authenticate_escaped)
  qed
qed

section \<open>Dispatcher: failures at the boundary\<close>

text \<open>What the \<^verbatim>\<open>catch\<close> does convert: the error of the default branch, for every name that
  is not registered, and every exception a handler throws.\<close>

lemma callTool_unknown_tool:
  assumes "name \<notin> set tool_names"
  shows "callTool w name args s =
           (Inr [\<lparr>item_type = ''text'', item_text = ''Error: Unknown tool: '' @ name\<rparr>], s)"
proof -
  have "call_handler w name args s = (Threw (Error (''Unknown tool: '' @ name)), s)"
    using assms by (simp add: call_handler_def tool_names_def)
  then show ?thesis
    by (simp add: callTool_def envelope_def)
qed

lemma callTool_thrown:
  "call_handler w name args s = (Threw e, s') \<Longrightarrow>
     callTool w name args s =
       (Inr [\<lparr>item_type = ''text'', item_text = ''Error: '' @ message e\<rparr>], s')"
  by (simp add: callTool_def envelope_def)

lemma callTool_missing_arguments:
  "callTool quiet_world ''get_top_tracks'' None (holding None 0) =
     (Inr [\<lparr>item_type = ''text'',
            item_text = ''Error: Cannot read properties of undefined (reading 'time_range')''\<rparr>],
      holding None 0)"
  by (simp add: callTool_def call_handler_def with_arg_def awaited_def cannot_read_def
      envelope_def)

lemma callTool_escapes:
  "fst (callTool w name args s) = Inl e \<longleftrightarrow>
     name = ''spotify_authenticate'' \<and> (listening s \<or> port_taken w (flows s)) \<and>
     listen_error w = Unhandled \<and> e = EADDRINUSE"
proof (cases "call_handler w name args s")
  case (Pair c s')
  then show ?thesis
    using call_handler_escaped [of w name args s e s'] authenticate_escaped [of w s e s']
      authenticate_escaped [of w s e "s\<lparr>flows := Suc (flows s)\<rparr>"]
    by (cases c) (auto simp: callTool_def call_handler_def)
qed

text \<open>
  Claim C4, evaluated on the code. A server starts without tokens and
  \<^verbatim>\<open>spotify_authenticate\<close> is invoked; the browser delivers an authorization code and the
  token endpoint answers the exchange with status 400. The failure is reported in an
  envelope, and the listener stays up. \<^verbatim>\<open>spotify_authenticate\<close> is invoked again: port 8888
  is still held by that listener, the bind fails, and in a world that emits the failure
  as an event the exception escapes the handler: the call produces no envelope.
\<close>

theorem second_authenticate_escapes:
  "fst (callTool consenting_world ''spotify_authenticate'' None started) =
     Inr [\<lparr>item_type = ''text'', item_text = ''Error: Request failed with status code 400''\<rparr>] \<and>
   listening (snd (callTool consenting_world ''spotify_authenticate'' None started)) \<and>
   fst (callTool consenting_world ''spotify_authenticate'' None
          (snd (callTool consenting_world ''spotify_authenticate'' None started))) =
     Inl (Error ''listen EADDRINUSE: address already in use :::8888'')"
proof -
  have first: "fst (callTool consenting_world ''spotify_authenticate'' None started) =
      Inr [\<lparr>item_type = ''text'', item_text = ''Error: Request failed with status code 400''\<rparr>] \<and>
      listening (snd (callTool consenting_world ''spotify_authenticate'' None started))"
    by (simp add: callTool_def call_handler_def authenticate_def settled_result_def flow_defs
        consenting_world_def refusing_world_def code_callback_def started_def envelope_def
        digits.simps digit_char_def)
  have policy: "listen_error consenting_world = Unhandled"
    by (simp add: consenting_world_def refusing_world_def scripted_world_def)
  have "fst (callTool consenting_world ''spotify_authenticate'' None
          (snd (callTool consenting_world ''spotify_authenticate'' None started))) =
      Inl EADDRINUSE"
    using first policy by (simp add: callTool_escapes)
  with first show ?thesis by (simp add: EADDRINUSE_def)
qed

section \<open>Recommendations: the query string\<close>

lemma param_string:
  "v \<noteq> JUndefined \<Longrightarrow> v \<noteq> JNull \<Longrightarrow>
     ((if is_array v then js_join callee v else toString_method v) = Inr t) = (ToString v = Inr t)"
  by (cases v) auto

lemma append_param_supplied:
  "append_param qp (k, v) = Inr qp' \<longleftrightarrow>
     (if v \<noteq> JUndefined \<and> v \<noteq> JNull then \<exists>t. ToString v = Inr t \<and> qp' = qp @ [(k, t)]
      else qp' = qp)"
proof (cases "v \<noteq> JUndefined \<and> v \<noteq> JNull")
  case True
  let ?p = "if is_array v then js_join ''value'' v else toString_method v"
  have unfold: "append_param qp (k, v) =
      (case ?p of Inl e \<Rightarrow> Inl e | Inr t \<Rightarrow> Inr (qp @ [(k, t)]))"
    using True by (simp add: append_param_def)
  show ?thesis
  proof (cases ?p)
    case (Inl e)
    then have "ToString v \<noteq> Inr t" for t
      using param_string [of v "''value''" t] True by auto
    with Inl True unfold show ?thesis by simp
  next
    case (Inr t)
    then have "ToString v = Inr t"
      using param_string [of v "''value''" t] True by auto
    with Inr True unfold show ?thesis by auto
  qed
next
  case False
  then show ?thesis by (auto simp: append_param_def)
qed

lemma forEach_param_supplied:
  "forEach_param qp entries = Inr qp' \<longleftrightarrow>
     (\<exists>strs. list_all2 (\<lambda>(k, v) t. ToString v = Inr t) (supplied entries) strs \<and>
        qp' = qp @ zip (map fst (supplied entries)) strs)"
proof (induction entries arbitrary: qp)
  case Nil
  then show ?case by (auto simp: supplied_def)
next
  case (Cons entry entries)
  obtain k v where entry: "entry = (k, v)" by (cases entry)
  show ?case
  proof (cases "v \<noteq> JUndefined \<and> v \<noteq> JNull")
    case False
    then have "append_param qp entry = Inr qp" and "supplied (entry # entries) = supplied entries"
      using entry by (auto simp: append_param_def supplied_def)
    then show ?thesis using Cons.IH [of qp] by simp
  next
    case True
    then have sup: "supplied (entry # entries) = (k, v) # supplied entries"
      using entry by (simp add: supplied_def)
    show ?thesis
    proof (cases "ToString v")
      case (Inl e)
      then have "\<exists>e. append_param qp entry = Inl e"
        using True entry append_param_supplied [of qp k v]
        by (cases "append_param qp entry") auto
      with Inl sup show ?thesis by (auto simp: list_all2_Cons1)
    next
      case (Inr t)
      then have "append_param qp entry = Inr (qp @ [(k, t)])"
        using True entry append_param_supplied [of qp k v "qp @ [(k, t)]"] by simp
      with Inr sup Cons.IH [of "qp @ [(k, t)]"] show ?thesis
        by (auto simp: list_all2_Cons1)
    qed
  qed
qed

lemma element_strings_of_strings: "element_strings (map JStr xs) = Inr xs"
  by (induction xs) auto

text \<open>The names in the query are the keys the caller supplied with a value other than
  \<^verbatim>\<open>undefined\<close> and \<^verbatim>\<open>null\<close>, in order; the handler adds no parameter of its own.\<close>

lemma query_names_are_supplied:
  assumes "forEach_param [] entries = Inr queryParams"
  shows "map fst queryParams = map fst (supplied entries)"
proof -
  from assms obtain strs where
    conv: "list_all2 (\<lambda>(k, v) t. ToString v = Inr t) (supplied entries) strs"
    and qp: "queryParams = zip (map fst (supplied entries)) strs"
    using forEach_param_supplied [of "[]" entries queryParams] by auto
  from conv have "length (supplied entries) = length strs"
    by (rule list_all2_lengthD)
  with qp show ?thesis by simp
qed

text \<open>
  Claim C6, evaluated on the code. For the arguments
  \<^verbatim>\<open>{seed_genres: ["rock"], target_energy: 0.8}\<close> the handler builds two query parameters,
  neither of them a limit, and the endpoint
  \<^verbatim>\<open>/recommendations?seed_genres=rock&target_energy=0.8\<close>; the dispatcher sends exactly one
  upstream request, to that endpoint. The limit of 20 that the schema of the tool declares
  as default is not part of the query.
\<close>

theorem recommendations_without_default_limit:
  "forEach_param [] rock_entries = Inr [(''seed_genres'', ''rock''), (''target_energy'', ''0.8'')] \<and>
   map_of [(''seed_genres'', ''rock''), (''target_energy'', ''0.8'')] ''limit'' = None \<and>
   recommendations_endpoint rock_arguments =
     Inr ''/recommendations?seed_genres=rock&target_energy=0.8'' \<and>
   map (\<lambda>(req, reply). url req)
     (api_log (snd (callTool quiet_world ''get_recommendations'' rock_arguments
                      (holding None 0)))) =
     [''https://api.spotify.com/v1/recommendations?seed_genres=rock&target_energy=0.8'']"
proof -
  have built: "forEach_param [] rock_entries =
      Inr [(''seed_genres'', ''rock''), (''target_energy'', ''0.8'')]"
    by (simp add: rock_entries_def append_param_def decimal_to_string_def digits.simps
        digit_char_def)
  have ep: "recommendations_endpoint rock_arguments =
      Inr ''/recommendations?seed_genres=rock&target_energy=0.8''"
    by (simp add: rock_arguments_def rock_entries_def encode_defs)
  have sent: "map (\<lambda>(req, reply). url req)
      (api_log (snd (callTool quiet_world ''get_recommendations'' rock_arguments
                       (holding None 0)))) =
      [''https://api.spotify.com/v1/recommendations?seed_genres=rock&target_energy=0.8'']"
    by (simp add: ep callTool_def call_handler_def awaited_def getRecommendations_def fetch_def
        json_result_def quiet_world_def run_defs split: prod.splits)
  from built ep sent show ?thesis by simp
qed

text \<open>
  Claim C10, as the code has it. The handler builds an endpoint exactly when every
  supplied value that is neither \<^verbatim>\<open>undefined\<close> nor \<^verbatim>\<open>null\<close> converts to a string, and the
  endpoint then holds, in order, every such key with that string (an array being its
  elements joined with commas), both percent-encoded; no key is filtered against the
  schema. In particular a number of any size under any key and an array of any length are
  forwarded as they are: the declared bounds and \<^verbatim>\<open>maxItems\<close> are not enforced.
\<close>

theorem recommendations_forwarding:
  "(recommendations_endpoint (Some entries) = Inr q \<longleftrightarrow>
      (\<exists>strs. list_all2 (\<lambda>(k, v) t. ToString v = Inr t) (supplied entries) strs \<and>
         q = ''/recommendations?'' @
             join_with ''&'' (map (\<lambda>(k, t). form_encode k @ ''='' @ form_encode t)
                               (zip (map fst (supplied entries)) strs)))) \<and>
   recommendations_endpoint (Some [(key, JNum n), (key', JArr (map JStr xs))]) =
     Inr (''/recommendations?'' @ form_encode key @ ''='' @ form_encode (number_to_string n) @
          ''&'' @ form_encode key' @ ''='' @ form_encode (join_with '','' xs))"
proof -
  have "recommendations_endpoint (Some entries) = Inr q \<longleftrightarrow>
      (\<exists>qp. forEach_param [] entries = Inr qp \<and> q = ''/recommendations?'' @ serialize qp)"
    by (auto simp: recommendations_endpoint_def split: sum.splits)
  then have general: "recommendations_endpoint (Some entries) = Inr q \<longleftrightarrow>
      (\<exists>strs. list_all2 (\<lambda>(k, v) t. ToString v = Inr t) (supplied entries) strs \<and>
         q = ''/recommendations?'' @
             join_with ''&'' (map (\<lambda>(k, t). form_encode k @ ''='' @ form_encode t)
                               (zip (map fst (supplied entries)) strs)))"
    by (auto simp: forEach_param_supplied serialize_def)
  have "recommendations_endpoint (Some [(key, JNum n), (key', JArr (map JStr xs))]) =
     Inr (''/recommendations?'' @ form_encode key @ ''='' @ form_encode (number_to_string n) @
          ''&'' @ form_encode key' @ ''='' @ form_encode (join_with '','' xs))"
    by (simp add: recommendations_endpoint_def append_param_def serialize_def
        element_strings_of_strings)
  with general show ?thesis by blast
qed

theorem recommendations_forwarding_witness:
  "recommendations_endpoint (Some unbounded_arguments) =
     Inr ''/recommendations?limit=1000&market=US&seed_genres=rock%2Cpop%2Cjazz%2Csoul%2Cfolk%2Cpunk''"
proof -
  have sup: "supplied unbounded_arguments =
      [(''limit'', JNum (NumDecimal False 1 4)), (''market'', JStr ''US''),
       (''seed_genres'', JArr (map JStr [''rock'', ''pop'', ''jazz'', ''soul'', ''folk'', ''punk'']))]"
    by (simp add: supplied_def unbounded_arguments_def)
  have conv: "list_all2 (\<lambda>(k, v) t. ToString v = Inr t) (supplied unbounded_arguments)
      [''1000'', ''US'', ''rock,pop,jazz,soul,folk,punk'']"
    unfolding sup
    by (simp add: decimal_to_string_def digits.simps digit_char_def numeral_3_eq_3)
  have "recommendations_endpoint (Some unbounded_arguments) =
      Inr (''/recommendations?'' @
           join_with ''&'' (map (\<lambda>(k, t). form_encode k @ ''='' @ form_encode t)
             (zip (map fst (supplied unbounded_arguments))
                [''1000'', ''US'', ''rock,pop,jazz,soul,folk,punk''])))"
    using recommendations_forwarding [where entries = unbounded_arguments] conv by blast
  then show ?thesis
    unfolding sup
    by (simp add: form_encode_def form_byte_def alphanumeric_def percent_byte_def hex_char_def)
qed

text \<open>A supplied value that is neither \<^verbatim>\<open>undefined\<close> nor \<^verbatim>\<open>null\<close> and is not forwarded: an
  object with a property of its own named \<^verbatim>\<open>toString\<close>. The call \<^verbatim>\<open>value.toString()\<close> throws,
  the dispatcher reports the error, and no upstream request is made.\<close>

theorem recommendations_shadowed_toString:
  "callTool quiet_world ''get_recommendations''
     (Some [(''target_energy'', JObj [(''toString'', JNum (NumDecimal False 1 1))])])
     (holding None 0) =
   (Inr [\<lparr>item_type = ''text'', item_text = ''Error: value.toString is not a function''\<rparr>],
    holding None 0)"
  by (simp add: callTool_def call_handler_def awaited_def getRecommendations_def fetch_def
      recommendations_endpoint_def append_param_def envelope_def)


section \<open>Authorization flow: a failed exchange\<close>

lemma exchange_failure_keeps_listener:
  assumes "listening s" and "\<not> query_truthy (error cb)" and "exchange_try w cb s = (Inl e, s1)"
  shows "listening (on_callback w cb s) \<and>
         (promise s = None \<longrightarrow> promise (on_callback w cb s) = Some (Rejected e))"
proof -
  have "listening s1 = listening s \<and> promise s1 = promise s"
    using assms(3)
    by (auto simp: exchange_try_def split: prod.splits sum.splits
        dest!: post_token_frame saveTokens_frame)
  with assms show ?thesis
    by (simp add: on_callback_def settle_def send_page_def)
qed

text \<open>
  Claim C7, evaluated on the code. A callback with an authorization code arrives while
  the token endpoint answers with status 400: the promise of the flow is rejected with
  that error, so the error is surfaced, but the listener is still up. A second callback is
  therefore served; its exchange fails without a reply, and the listener is up even then.
  Only the third callback, whose exchange succeeds, closes the listener.
\<close>

theorem failed_exchange_leaves_listener_open:
  "listening (on_callback refusing_world code_callback awaiting_callback) \<and>
   promise (on_callback refusing_world code_callback awaiting_callback) =
     Some (Rejected (AxiosError (Some 400) ''Request failed with status code 400'')) \<and>
   listening (on_callback refusing_world code_callback
                (on_callback refusing_world code_callback awaiting_callback)) \<and>
   pages (on_callback refusing_world code_callback
            (on_callback refusing_world code_callback awaiting_callback)) =
     [''Authentication error: Request failed with status code 400'',
      ''Authentication error: connect ECONNREFUSED''] \<and>
   \<not> listening (on_callback refusing_world code_callback
                  (on_callback refusing_world code_callback
                     (on_callback refusing_world code_callback awaiting_callback)))"
  by (simp add: flow_defs refusing_world_def awaiting_callback_def code_callback_def
      digits.simps digit_char_def envelope_def)

end
